theory Spec2Isabelle
  imports Complex_Main "HOL-Library.Word" "HOL-Library.AList" "HOL-Library.Log_Nat"
begin

section \<open>Strings and numbers of the source language\<close>

text \<open>
  A TypeScript string is a sequence of UTF-16 code units; a code unit is modelled as a
  natural number, so that the marks the parser inserts (U+00A0, U+200B, U+FFFC, ...) are
  ordinary elements.  \<open>str\<close> embeds an ASCII literal.
\<close>

type_synonym jstring = "nat list"

definition str :: "string \<Rightarrow> jstring" where
  "str s = map of_char s"

text \<open>
  A TypeScript \<open>number\<close> is modelled by its exact value: a rational, one of the two
  infinities, or NaN.  The operations below give the exact result; where the program's
  result depends on the rounding of a double to 53 bits (\<open>hashCode\<close>, the colour
  interpolation) the rounding is applied to the exact result, by \<open>round_double_int\<close> and
  \<open>fl_n\<close>.  The sign of zero is not represented (a division by zero takes the sign of
  the dividend).
\<close>

datatype num = NaN | NInf | Fin rat | PInf

fun neg_n :: "num \<Rightarrow> num" where
  "neg_n NaN = NaN"
| "neg_n NInf = PInf"
| "neg_n PInf = NInf"
| "neg_n (Fin a) = Fin (- a)"

fun add_n :: "num \<Rightarrow> num \<Rightarrow> num" where
  "add_n (Fin a) (Fin b) = Fin (a + b)"
| "add_n NaN _ = NaN"
| "add_n _ NaN = NaN"
| "add_n PInf NInf = NaN"
| "add_n NInf PInf = NaN"
| "add_n PInf _ = PInf"
| "add_n NInf _ = NInf"
| "add_n _ PInf = PInf"
| "add_n _ NInf = NInf"

definition sub_n :: "num \<Rightarrow> num \<Rightarrow> num" where
  "sub_n a b = add_n a (neg_n b)"

text \<open>The sign of a number that is not NaN: \<open>-1\<close>, \<open>0\<close> or \<open>1\<close>.\<close>

fun sign_n :: "num \<Rightarrow> int" where
  "sign_n (Fin a) = (if a < 0 then - 1 else if a = 0 then 0 else 1)"
| "sign_n PInf = 1"
| "sign_n NInf = - 1"
| "sign_n NaN = 0"

definition inf_of_sign :: "int \<Rightarrow> num" where
  "inf_of_sign k = (if k = 0 then NaN else if k < 0 then NInf else PInf)"

fun mul_n :: "num \<Rightarrow> num \<Rightarrow> num" where
  "mul_n (Fin a) (Fin b) = Fin (a * b)"
| "mul_n NaN _ = NaN"
| "mul_n _ NaN = NaN"
| "mul_n a b = inf_of_sign (sign_n a * sign_n b)"

fun div_n :: "num \<Rightarrow> num \<Rightarrow> num" where
  "div_n (Fin a) (Fin b) = (if b = 0 then inf_of_sign (sign_n (Fin a)) else Fin (a / b))"
| "div_n NaN _ = NaN"
| "div_n _ NaN = NaN"
| "div_n (Fin a) _ = Fin 0"
| "div_n a (Fin b) = inf_of_sign (sign_n a * (if b < 0 then - 1 else 1))"
| "div_n _ _ = NaN"

text \<open>Comparisons: every comparison with NaN is false.\<close>

fun lt_n :: "num \<Rightarrow> num \<Rightarrow> bool" where
  "lt_n (Fin a) (Fin b) = (a < b)"
| "lt_n NaN _ = False"
| "lt_n _ NaN = False"
| "lt_n NInf b = (b \<noteq> NInf)"
| "lt_n a PInf = (a \<noteq> PInf)"
| "lt_n _ _ = False"

text \<open>\<open>a === b\<close> on numbers: NaN is not equal to itself.\<close>

definition eq_n :: "num \<Rightarrow> num \<Rightarrow> bool" where
  "eq_n a b = (a \<noteq> NaN \<and> a = b)"

definition isNaN :: "num \<Rightarrow> bool" where
  "isNaN a = (a = NaN)"

text \<open>Truthiness of a number (\<open>x || y\<close>, \<open>if (x)\<close>): false for 0 and NaN.\<close>

definition truthy_n :: "num \<Rightarrow> bool" where
  "truthy_n a = (a \<noteq> NaN \<and> a \<noteq> Fin 0)"

definition or_n :: "num \<Rightarrow> num \<Rightarrow> num" where
  "or_n a b = (if truthy_n a then a else b)"

definition int_n :: "int \<Rightarrow> num" where
  "int_n k = Fin (of_int k)"

text \<open>
  The double nearest to a rational, a tie going to the even significand:
  \<open>ilog2 x\<close> is the exponent \<open>e\<close> with \<open>2^e \<le> x < 2^(e+1)\<close>, and the doubles of that binade are
  the multiples of \<open>2^(e-52)\<close>.  The exponent is not bounded: overflow and subnormal
  numbers are not represented.
\<close>

definition pow2 :: "int \<Rightarrow> rat" where
  "pow2 k = (if 0 \<le> k then 2 ^ nat k else 1 / 2 ^ nat (- k))"

definition ilog2 :: "rat \<Rightarrow> int" where
  "ilog2 x = (let (p, q) = quotient_of x; d = bitlen p - bitlen q
              in if pow2 d \<le> x then d else d - 1)"

definition round_even :: "rat \<Rightarrow> int" where
  "round_even q = (let f = \<lfloor>q\<rfloor>; r = q - of_int f
                   in if r < 1 / 2 then f else if 1 / 2 < r then f + 1
                      else if even f then f else f + 1)"

definition fl :: "rat \<Rightarrow> rat" where
  "fl x = (if x = 0 then 0
           else let u = pow2 (ilog2 \<bar>x\<bar> - 52) in of_int (round_even (x / u)) * u)"

text \<open>The result of an arithmetic operation as the double that the program holds.\<close>

fun fl_n :: "num \<Rightarrow> num" where
  "fl_n (Fin q) = Fin (fl q)"
| "fl_n a = a"

text \<open>
  A value held where the program expects a colour.  It is a number, except that
  \<open>parseColor\<close> looks a name up in the plain object \<open>NAMED_COLORS\<close> and so returns, for the
  names \<open>constructor\<close> and \<open>__proto__\<close>, the member that every object inherits under that
  name (the function \<open>Object\<close>, the object \<open>Object.prototype\<close>).
\<close>

datatype jsval = Number num | Inherited jstring

text \<open>\<open>ToNumber\<close>: neither inherited member converts to a number.\<close>

fun to_number :: "jsval \<Rightarrow> num" where
  "to_number (Number a) = a"
| "to_number (Inherited m) = NaN"

text \<open>\<open>a === b\<close> on such values: two objects are equal when they are the same object.\<close>

fun eq_v :: "jsval \<Rightarrow> jsval \<Rightarrow> bool" where
  "eq_v (Number a) (Number b) = eq_n a b"
| "eq_v (Inherited m) (Inherited n) = (m = n)"
| "eq_v _ _ = False"

text \<open>
  \<open>toLowerCase\<close> on the ASCII letters; other code units are left as they are (the
  Unicode case tables are not modelled).
\<close>

definition lower_unit :: "nat \<Rightarrow> nat" where
  "lower_unit c = (if 65 \<le> c \<and> c \<le> 90 then c + 32 else c)"

definition toLowerCase :: "jstring \<Rightarrow> jstring" where
  "toLowerCase s = map lower_unit s"

section \<open>TagStack\<close>

text \<open>
  \<^verbatim>\<open>class TagStack<T> { private _stack: T[] = []; private _current: T; ... }\<close>
  The array grows at its end (\<open>push\<close>) and shrinks at its end (\<open>pop\<close>).
\<close>

record 'a TagStack =
  tstack :: "'a list"
  tcurrent :: "'a"

definition new_TagStack :: "'a \<Rightarrow> 'a TagStack" where
  "new_TagStack initial = \<lparr>tstack = [], tcurrent = initial\<rparr>"

definition push :: "'a \<Rightarrow> 'a TagStack \<Rightarrow> 'a TagStack" where
  "push v s = \<lparr>tstack = tstack s @ [tcurrent s], tcurrent = v\<rparr>"

text \<open>\<open>pop\<close> returns the (possibly restored) current value together with the stack.\<close>

definition pop :: "'a TagStack \<Rightarrow> 'a \<times> 'a TagStack" where
  "pop s =
     (if length (tstack s) > 0
      then (last (tstack s), \<lparr>tstack = butlast (tstack s), tcurrent = last (tstack s)\<rparr>)
      else (tcurrent s, s))"

definition reset :: "'a \<Rightarrow> 'a TagStack \<Rightarrow> 'a TagStack" where
  "reset v s = \<lparr>tstack = [], tcurrent = v\<rparr>"

section \<open>TMPFont: glyph lookup with fallback fonts\<close>

text \<open>
  The texture of a glyph is used by the layout only through \<open>orig.width\<close> and
  \<open>orig.height\<close>.
\<close>

record Texture =
  orig_width :: num
  orig_height :: num

record CharData =
  xOffset :: num
  yOffset :: num
  xAdvance :: num
  kerning :: "jstring \<Rightarrow> num option"
  texture :: "Texture option"

text \<open>
  Font objects are referred to by identity; \<open>font_id\<close> is the address of a font and
  \<open>fonts\<close> the store.  \<open>font_registry\<close> is the static \<open>Map<string, TMPFont>\<close>, keyed by
  the lower-cased name, in insertion order.
\<close>

type_synonym font_id = nat

record TMPFont =
  chars :: "jstring \<Rightarrow> CharData option"
  fallbackFonts :: "jstring list"
  baseMeasurementFontSize :: num
  lineHeight :: num
  baseLineOffset :: num
  ascent :: num
  descent :: num
  capLine :: num
  meanLine :: num
  superscriptOffset :: num
  subscriptOffset :: num
  tabWidth :: num
  boldStyle :: num
  boldSpacing :: num

record font_env =
  fonts :: "font_id \<Rightarrow> TMPFont"
  font_registry :: "(jstring \<times> font_id) list"

definition registerFont :: "jstring \<Rightarrow> font_id \<Rightarrow> font_env \<Rightarrow> font_env" where
  "registerFont name f env =
     env\<lparr>font_registry := AList.update (toLowerCase name) f (font_registry env)\<rparr>"

definition getFont :: "font_env \<Rightarrow> jstring \<Rightarrow> font_id option" where
  "getFont env name = map_of (font_registry env) (toLowerCase name)"

text \<open>\<open>visited.add(this)\<close> on a \<open>Set\<close>, which keeps insertion order and no duplicates.\<close>

definition set_add :: "'a \<Rightarrow> 'a list \<Rightarrow> 'a list" where
  "set_add x xs = (if x \<in> set xs then xs else xs @ [x])"

text \<open>
  \<open>getCharWithFallback\<close> calls itself through the loop over \<open>fallbackFonts\<close>, sharing
  the one mutable \<open>visited\<close> set.  The first argument bounds the depth of the
  recursion; \<open>None\<close> says that the bound was reached, \<open>Some (r, visited)\<close> that the
  call returned \<open>r\<close> (\<open>None\<close> for \<open>undefined\<close>) and left the set as \<open>visited\<close>.
\<close>

fun getCharWithFallback_rec ::
    "nat \<Rightarrow> font_env \<Rightarrow> jstring \<Rightarrow> font_id \<Rightarrow> font_id list
       \<Rightarrow> ((CharData \<times> font_id) option \<times> font_id list) option"
  and fallback_loop ::
    "nat \<Rightarrow> font_env \<Rightarrow> jstring \<Rightarrow> jstring list \<Rightarrow> font_id list
       \<Rightarrow> ((CharData \<times> font_id) option \<times> font_id list) option"
where
  "getCharWithFallback_rec 0 env c this visited = None"
| "getCharWithFallback_rec (Suc n) env c this visited =
     (case chars (fonts env this) c of
        Some charData \<Rightarrow> Some (Some (charData, this), visited)
      | None \<Rightarrow> fallback_loop n env c (fallbackFonts (fonts env this)) (set_add this visited))"
| "fallback_loop n env c [] visited = Some (None, visited)"
| "fallback_loop n env c (fbName # rest) visited =
     (case getFont env fbName of
        None \<Rightarrow> fallback_loop n env c rest visited
      | Some fb \<Rightarrow>
          if fb \<in> set visited then fallback_loop n env c rest visited
          else (case getCharWithFallback_rec n env c fb visited of
                  None \<Rightarrow> None
                | Some (Some result, visited') \<Rightarrow> Some (Some result, visited')
                | Some (None, visited') \<Rightarrow> fallback_loop n env c rest visited'))"

text \<open>The call \<open>font.getCharWithFallback(char)\<close>, with a fresh visited set; the depth
  allowed is one more than the number of registered fonts.\<close>

definition getCharWithFallback ::
    "font_env \<Rightarrow> font_id \<Rightarrow> jstring \<Rightarrow> ((CharData \<times> font_id) option \<times> font_id list) option" where
  "getCharWithFallback env this c =
     getCharWithFallback_rec (Suc (length (font_registry env))) env c this []"

text \<open>Two fonts that name each other (and themselves) as fallbacks, none with a glyph.\<close>

definition empty_font :: "jstring list \<Rightarrow> TMPFont" where
  "empty_font fbs = \<lparr>chars = (\<lambda>_. None), fallbackFonts = fbs,
     baseMeasurementFontSize = Fin 32, lineHeight = Fin 40, baseLineOffset = Fin 0,
     ascent = Fin 30, descent = Fin 10, capLine = Fin 0, meanLine = Fin 0,
     superscriptOffset = Fin 0, subscriptOffset = Fin 0, tabWidth = Fin 0,
     boldStyle = Fin (3 / 4), boldSpacing = Fin 7\<rparr>"

definition cyclic_env :: font_env where
  "cyclic_env =
     registerFont (str ''B'') 1 (registerFont (str ''A'') 0
       \<lparr>fonts = (\<lambda>f. if f = 0 then empty_font [str ''a'', str ''b'']
                        else empty_font [str ''B'', str ''A'']),
        font_registry = []\<rparr>)"



section \<open>Style state and parsed characters\<close>

text \<open>
  \<^verbatim>\<open>interface StyleState\<close>.  Sizes are numbers; the colours that \<open>parseColor\<close>
  supplies are values of \<open>jsval\<close>; \<open>align\<close> is the alignment name or the empty string.
\<close>

record StyleState =
  color :: jsval
  alpha :: num
  fontSize :: num
  fontFamily :: jstring
  bold :: bool
  italic :: bool
  underline :: bool
  strikethrough :: bool
  markColor :: num
  markPadding :: "num list"
  cspace :: num
  mspace :: num
  voffset :: num
  underlineColor :: jsval
  strikethroughColor :: jsval
  italicAngle :: num
  isNoBreak :: bool
  isLink :: bool
  linkId :: jstring
  align :: jstring
  indent :: num
  marginLeft :: num
  marginRight :: num
  lineHeightOverride :: num
  isAllCaps :: bool
  isLowercase :: bool
  isSmallCaps :: bool
  isSuperscript :: bool
  isSubscript :: bool
  charScale :: num
  rotation :: num
  gradientColors :: "jsval list"
  widthConstraint :: num
  fontWeight :: jstring
  lineIndent :: num
  material :: jstring

definition createDefaultStyleState :: "num \<Rightarrow> num \<Rightarrow> jstring \<Rightarrow> StyleState" where
  "createDefaultStyleState fontSize' color' fontFamily' =
     \<lparr>color = Number color', alpha = Fin 1, fontSize = fontSize', fontFamily = fontFamily',
      bold = False, italic = False, underline = False, strikethrough = False,
      markColor = Fin 0, markPadding = [], cspace = Fin 0, mspace = Fin 0, voffset = Fin 0,
      underlineColor = Number (Fin (- 1)), strikethroughColor = Number (Fin (- 1)),
      italicAngle = Fin 0,
      isNoBreak = False, isLink = False, linkId = [], align = [], indent = Fin 0,
      marginLeft = Fin 0, marginRight = Fin 0, lineHeightOverride = Fin 0,
      isAllCaps = False, isLowercase = False, isSmallCaps = False,
      isSuperscript = False, isSubscript = False, charScale = Fin 1, rotation = Fin 0,
      gradientColors = [], widthConstraint = Fin 0, fontWeight = [], lineIndent = Fin 0,
      material = []\<rparr>"

text \<open>
  A \<open>ParsedChar\<close> carries a copy of every field of the style state, and the fields of
  its own below; it is the record extension of \<open>StyleState\<close>.  \<open>charCode\<close> is
  \<open>char.codePointAt(0) ?? 0\<close>, read here as the first code unit.
\<close>

record ParsedChar = StyleState +
  char :: jstring
  charCode :: nat
  originalIndex :: nat
  isSprite :: bool
  spriteAsset :: jstring
  spriteName :: jstring
  spriteIndex :: num
  spriteTint :: num
  isLineBreak :: bool
  extraSpace :: num
  fixedPosition :: num

definition codePointAt0 :: "jstring \<Rightarrow> nat" where
  "codePointAt0 s = (case s of [] \<Rightarrow> 0 | c # _ \<Rightarrow> c)"

definition createParsedChar :: "jstring \<Rightarrow> nat \<Rightarrow> StyleState \<Rightarrow> ParsedChar" where
  "createParsedChar ch originalIndex' state =
     StyleState.extend state
       (ParsedChar.fields ch (codePointAt0 ch) originalIndex' False [] [] (Fin (- 1)) (Fin (- 1))
          (ch = [10]) (Fin 0) NaN)"

section \<open>Gradient post-processor\<close>

text \<open>\<open>ToInt32\<close>, applied by the bitwise operators to their operands.\<close>

fun to_int32 :: "num \<Rightarrow> int" where
  "to_int32 (Fin q) = signed_take_bit 31 (if 0 \<le> q then \<lfloor>q\<rfloor> else \<lceil>q\<rceil>)"
| "to_int32 _ = 0"

text \<open>\<open>a >> k\<close>, \<open>a & b\<close>, \<open>a << k\<close> and \<open>a | b\<close> on numbers.\<close>

definition sar_n :: "num \<Rightarrow> nat \<Rightarrow> num" where
  "sar_n a k = int_n (drop_bit k (to_int32 a))"

definition and_n :: "num \<Rightarrow> num \<Rightarrow> num" where
  "and_n a b = int_n (and (to_int32 a) (to_int32 b))"

definition shl_n :: "num \<Rightarrow> nat \<Rightarrow> num" where
  "shl_n a k = int_n (signed_take_bit 31 (push_bit k (to_int32 a)))"

definition or_bits_n :: "num \<Rightarrow> num \<Rightarrow> num" where
  "or_bits_n a b = int_n (or (to_int32 a) (to_int32 b))"

text \<open>\<open>Math.round\<close>: the nearest integer, a tie going up.\<close>

fun round_n :: "num \<Rightarrow> num" where
  "round_n (Fin q) = Fin (of_int \<lfloor>q + 1 / 2\<rfloor>)"
| "round_n a = a"

text \<open>
  \<open>lerpColor(a, b, t)\<close>.  The operators \<open>>>\<close> and \<open>&\<close> convert their operand to a number.
  The difference of two channels is exact; the product with \<open>t\<close> and the sum are rounded
  to doubles before \<open>Math.round\<close>.
\<close>

definition lerpColor :: "jsval \<Rightarrow> jsval \<Rightarrow> num \<Rightarrow> num" where
  "lerpColor a b t =
     (let ar = and_n (sar_n (to_number a) 16) (Fin 255);
          ag = and_n (sar_n (to_number a) 8) (Fin 255);
          ab = and_n (to_number a) (Fin 255);
          br = and_n (sar_n (to_number b) 16) (Fin 255);
          bg = and_n (sar_n (to_number b) 8) (Fin 255);
          bb = and_n (to_number b) (Fin 255);
          r = round_n (fl_n (add_n ar (fl_n (mul_n (sub_n br ar) t))));
          g = round_n (fl_n (add_n ag (fl_n (mul_n (sub_n bg ag) t))));
          blue = round_n (fl_n (add_n ab (fl_n (mul_n (sub_n bb ab) t))))
      in or_bits_n (or_bits_n (shl_n r 16) (shl_n g 8)) blue)"

text \<open>
  \<open>interpolateRegion\<close> writes the \<open>color\<close> of the characters \<open>start..end\<close>.  It is
  called with indices inside the array and with at least two colours.
\<close>

definition set_color :: "nat \<Rightarrow> jsval \<Rightarrow> ParsedChar list \<Rightarrow> ParsedChar list" where
  "set_color i c cs = cs[i := (cs ! i)\<lparr>color := c\<rparr>]"

definition interpolateRegion :: "ParsedChar list \<Rightarrow> int \<Rightarrow> int \<Rightarrow> jsval list \<Rightarrow> ParsedChar list" where
  "interpolateRegion cs start end' colors =
     (let count = end' - start in
      if count \<le> 0 then set_color (nat start) (colors ! 0) cs
      else fold (\<lambda>i cs'. set_color (nat i)
                   (Number (lerpColor (colors ! 0) (colors ! 1)
                              (fl_n (div_n (int_n (i - start)) (int_n count))))) cs')
             [start..end'] cs)"

text \<open>The state of the loop of \<open>applyGradients\<close>.\<close>

record grad_state =
  gradStart :: int
  gradColors :: "jsval list"
  gchars :: "ParsedChar list"

definition applyGradients_step :: "nat \<Rightarrow> grad_state \<Rightarrow> grad_state" where
  "applyGradients_step i st =
     (let gc = (if i < length (gchars st) then gradientColors (gchars st ! i) else []);
          isGrad = (length gc \<ge> 2);
          sameGrad = (isGrad \<and> length (gradColors st) \<ge> 2
                      \<and> eq_v (gc ! 0) (gradColors st ! 0) \<and> eq_v (gc ! 1) (gradColors st ! 1));
          st1 = (if gradStart st \<ge> 0 \<and> \<not> sameGrad
                 then st\<lparr>gchars := interpolateRegion (gchars st) (gradStart st) (int i - 1) (gradColors st),
                         gradStart := - 1\<rparr>
                 else st)
      in if isGrad \<and> gradStart st1 < 0 then st1\<lparr>gradStart := int i, gradColors := gc\<rparr> else st1)"

definition applyGradients :: "ParsedChar list \<Rightarrow> ParsedChar list" where
  "applyGradients cs =
     gchars (fold applyGradients_step [0..<length cs + 1]
               \<lparr>gradStart = - 1, gradColors = [], gchars = cs\<rparr>)"

section \<open>Specification vocabulary for the gradient pass\<close>

text \<open>A colour in the 24-bit range \<open>0..0xFFFFFF\<close>.\<close>

fun is_rgb :: "jsval \<Rightarrow> bool" where
  "is_rgb (Number (Fin q)) = (q = of_int \<lfloor>q\<rfloor> \<and> 0 \<le> q \<and> q < 2 ^ 24)"
| "is_rgb _ = False"

text \<open>The 8-bit channel of a colour at bit \<open>sh\<close>, \<open>(c >> sh) & 0xff\<close>.\<close>

definition channel :: "nat \<Rightarrow> jsval \<Rightarrow> int" where
  "channel sh c = take_bit 8 (drop_bit sh (to_int32 (to_number c)))"

text \<open>The value of one channel at the fraction \<open>t\<close> of the way from \<open>c0\<close> to \<open>c1\<close>, without
  rounding.\<close>

definition lerp_exact :: "nat \<Rightarrow> jsval \<Rightarrow> jsval \<Rightarrow> rat \<Rightarrow> rat" where
  "lerp_exact sh c0 c1 t = of_int (channel sh c0) + of_int (channel sh c1 - channel sh c0) * t"

text \<open>The same value as the program computes it: \<open>t\<close>, the product and the sum are rounded
  to doubles, then \<open>Math.round\<close> takes the nearest integer, a tie going up.\<close>

definition lerp_double :: "nat \<Rightarrow> jsval \<Rightarrow> jsval \<Rightarrow> rat \<Rightarrow> int" where
  "lerp_double sh c0 c1 t =
     \<lfloor>fl (of_int (channel sh c0) + fl (of_int (channel sh c1 - channel sh c0) * fl t)) + 1 / 2\<rfloor>"

text \<open>The character carries a gradient whose two endpoint colours are \<open>c0\<close> and \<open>c1\<close>.\<close>

definition has_endpoints :: "ParsedChar \<Rightarrow> jsval \<Rightarrow> jsval \<Rightarrow> bool" where
  "has_endpoints pc c0 c1 =
     (length (gradientColors pc) \<ge> 2 \<and> eq_v (gradientColors pc ! 0) c0
      \<and> eq_v (gradientColors pc ! 1) c1)"

text \<open>The colour that the character at index \<open>k\<close> of a run \<open>s..e\<close> is to receive:
  with \<open>N = e - s + 1\<close> characters, \<open>t = (k - s) / (N - 1)\<close>.\<close>

definition run_color :: "jsval \<Rightarrow> jsval \<Rightarrow> nat \<Rightarrow> nat \<Rightarrow> nat \<Rightarrow> jsval" where
  "run_color c0 c1 s e k =
     (if e = s then c0
      else Number (lerpColor c0 c1 (Fin (fl (of_nat (k - s) / of_nat (e - s))))))"

text \<open>The loop invariant of \<open>applyGradients\<close> before index \<open>i\<close>, relative to one run.\<close>

definition grad_inv ::
    "ParsedChar list \<Rightarrow> nat \<Rightarrow> nat \<Rightarrow> jsval \<Rightarrow> jsval \<Rightarrow> nat \<Rightarrow> grad_state \<Rightarrow> bool" where
  "grad_inv cs s e c0 c1 i st =
     (length (gchars st) = length cs
      \<and> (\<forall>k < length cs. gradientColors (gchars st ! k) = gradientColors (cs ! k))
      \<and> (0 \<le> gradStart st \<longrightarrow>
            0 < i \<and> gradStart st < int i \<and> i \<le> length cs \<and> 2 \<le> length (gradColors st)
            \<and> 2 \<le> length (gradientColors (cs ! (i - 1)))
            \<and> gradientColors (cs ! (i - 1)) ! 0 = gradColors st ! 0
            \<and> gradientColors (cs ! (i - 1)) ! 1 = gradColors st ! 1)
      \<and> (s < i \<and> i \<le> e + 1 \<longrightarrow>
            gradStart st = int s \<and> gradColors st ! 0 = c0 \<and> gradColors st ! 1 = c1)
      \<and> (e + 1 < i \<longrightarrow>
            (gradStart st < 0 \<or> int e < gradStart st)
            \<and> (\<forall>k. s \<le> k \<and> k \<le> e \<longrightarrow> color (gchars st ! k) = run_color c0 c1 s e k)))"

text \<open>The gradient colours read at index \<open>i\<close>, and the test \<open>sameGrad\<close>.\<close>

definition gc_at :: "grad_state \<Rightarrow> nat \<Rightarrow> jsval list" where
  "gc_at st i = (if i < length (gchars st) then gradientColors (gchars st ! i) else [])"

definition same_grad :: "grad_state \<Rightarrow> nat \<Rightarrow> bool" where
  "same_grad st i =
     (2 \<le> length (gc_at st i) \<and> 2 \<le> length (gradColors st)
      \<and> eq_v (gc_at st i ! 0) (gradColors st ! 0) \<and> eq_v (gc_at st i ! 1) (gradColors st ! 1))"

text \<open>\<open>s..e\<close> is a maximal run of characters sharing the endpoint colours \<open>c0\<close>, \<open>c1\<close>.\<close>

definition maximal_run :: "ParsedChar list \<Rightarrow> nat \<Rightarrow> nat \<Rightarrow> jsval \<Rightarrow> jsval \<Rightarrow> bool" where
  "maximal_run cs s e c0 c1 =
     (s \<le> e \<and> e < length cs
      \<and> (\<forall>k \<in> {s..e}. has_endpoints (cs ! k) c0 c1)
      \<and> (s = 0 \<or> \<not> has_endpoints (cs ! (s - 1)) c0 c1)
      \<and> (e + 1 = length cs \<or> \<not> has_endpoints (cs ! (e + 1)) c0 c1))"

text \<open>A character with the given gradient colours.\<close>

definition grad_char :: "jsval list \<Rightarrow> ParsedChar" where
  "grad_char gcs =
     createParsedChar (str ''x'') 0
       ((createDefaultStyleState (Fin 32) (Fin 16777215) [])\<lparr>gradientColors := gcs\<rparr>)"

text \<open>Eleven characters inside \<open><gradient=#000000,#00002d>\<close>: the blue channel goes from 0
  to 45, and at the eighth character the exact value \<open>45 * 7 / 10\<close> is the tie \<open>31.5\<close>.\<close>

definition grad_tie :: "ParsedChar list" where
  "grad_tie = replicate 11 (grad_char [Number (Fin 0), Number (Fin 45)])"

text \<open>Two characters inside \<open><gradient=#1234567,#000000>\<close>: the first endpoint, a
  seven-digit hexadecimal number, is \<open>0x1234567\<close>.\<close>

definition grad_wide :: "ParsedChar list" where
  "grad_wide = [grad_char [Number (Fin 19088743), Number (Fin 0)],
                grad_char [Number (Fin 19088743), Number (Fin 0)]]"

section \<open>String operations of the source language\<close>

text \<open>The white space that \<open>trim\<close> removes and that \<open>\s\<close> matches.\<close>

definition is_space :: "nat \<Rightarrow> bool" where
  "is_space c =
     (c = 9 \<or> c = 10 \<or> c = 11 \<or> c = 12 \<or> c = 13 \<or> c = 32 \<or> c = 160 \<or> c = 5760
      \<or> (8192 \<le> c \<and> c \<le> 8202) \<or> c = 8232 \<or> c = 8233 \<or> c = 8239 \<or> c = 8287
      \<or> c = 12288 \<or> c = 65279)"

definition trim :: "jstring \<Rightarrow> jstring" where
  "trim s = rev (dropWhile is_space (rev (dropWhile is_space s)))"

text \<open>\<open>s.indexOf(c)\<close> for a single code unit, \<open>None\<close> for \<open>-1\<close>.\<close>

fun index_of :: "nat \<Rightarrow> jstring \<Rightarrow> nat option" where
  "index_of c [] = None"
| "index_of c (x # xs) = (if x = c then Some 0 else map_option Suc (index_of c xs))"

definition indexOf_from :: "jstring \<Rightarrow> nat \<Rightarrow> nat \<Rightarrow> nat option" where
  "indexOf_from s c from = map_option (\<lambda>k. k + from) (index_of c (drop from s))"

text \<open>\<open>s.substring(a, b)\<close>: both ends are clamped to the length and swapped if needed.\<close>

definition substring :: "jstring \<Rightarrow> nat \<Rightarrow> nat \<Rightarrow> jstring" where
  "substring s a b =
     (let a' = min a (length s); b' = min b (length s)
      in take (max a' b' - min a' b') (drop (min a' b') s))"

definition startsWith :: "jstring \<Rightarrow> jstring \<Rightarrow> bool" where
  "startsWith s p = (take (length p) s = p)"

definition endsWith :: "jstring \<Rightarrow> jstring \<Rightarrow> bool" where
  "endsWith s p = (length p \<le> length s \<and> drop (length s - length p) s = p)"

text \<open>\<open>s.slice(1, -1)\<close>.\<close>

definition slice_1_m1 :: "jstring \<Rightarrow> jstring" where
  "slice_1_m1 s = butlast (drop 1 s)"

section \<open>hashCode\<close>

text \<open>
  The product \<open>hash * 0x01000193\<close> is a floating-point product: beyond \<open>2^53\<close> it is
  rounded to 53 significant bits, ties to even.  The operands keep it below \<open>2^56\<close>.
\<close>

definition round_double_int :: "int \<Rightarrow> int" where
  "round_double_int p =
     (let a = \<bar>p\<bar>;
          e = (if a < 2 ^ 53 then 0 else if a < 2 ^ 54 then 1 else if a < 2 ^ 55 then 2 else (3::nat));
          q = a div 2 ^ e;
          r = a mod 2 ^ e;
          q' = (if 2 * r > 2 ^ e \<or> (2 * r = 2 ^ e \<and> odd q) then q + 1 else q)
      in sgn p * (q' * 2 ^ e))"

text \<open>One round of the loop: \<open>hash ^= c\<close> yields a signed 32-bit integer, \<open>>>> 0\<close> an
  unsigned one.\<close>

definition hash_step :: "int \<Rightarrow> nat \<Rightarrow> int" where
  "hash_step hash c =
     (let h1 = xor (signed_take_bit 31 hash) (signed_take_bit 31 (int c))
      in round_double_int (h1 * 16777619) mod 2 ^ 32)"

definition hashCode :: "jstring \<Rightarrow> int" where
  "hashCode s = foldl hash_step 2166136261 s"

section \<open>Tag syntax\<close>

record TagParseResult =
  tagName :: jstring
  tagNameHash :: int
  tag_value :: jstring
  isClosing :: bool
  tag_length :: nat

text \<open>\<open>_tryParseTag(text, pos)\<close>; \<open>None\<close> for \<open>null\<close>.\<close>

definition tryParseTag :: "jstring \<Rightarrow> nat \<Rightarrow> TagParseResult option" where
  "tryParseTag text pos =
     (if \<not> (pos < length text \<and> text ! pos = 60) then None
      else case indexOf_from text 62 (pos + 1) of
        None \<Rightarrow> None
      | Some closeIdx \<Rightarrow>
          let tagLen = closeIdx - pos + 1 in
          if tagLen > 128 then None
          else
            let inner = trim (substring text (pos + 1) closeIdx) in
            if length inner = 0 then None
            else
              let closing = (inner ! 0 = 47);
                  content = (if closing then trim (drop 1 inner) else inner);
                  eqIdx = index_of 61 content;
                  spaceIdx = index_of 32 content;
                  (name, val) =
                    (case eqIdx of
                       Some eq \<Rightarrow>
                         (if spaceIdx = None \<or> eq < the spaceIdx
                          then (trim (substring content 0 eq),
                                (let v = trim (drop (eq + 1) content)
                                 in if (startsWith v [34] \<and> endsWith v [34])
                                       \<or> (startsWith v [39] \<and> endsWith v [39])
                                    then slice_1_m1 v else v))
                          else (trim (substring content 0 (the spaceIdx)),
                                trim (drop (the spaceIdx + 1) content)))
                     | None \<Rightarrow>
                         (case spaceIdx of
                            Some sp \<Rightarrow> (trim (substring content 0 sp), trim (drop (sp + 1) content))
                          | None \<Rightarrow> (trim content, [])))
              in if length name = 0 then None
                 else Some \<lparr>tagName = name, tagNameHash = hashCode (toLowerCase name),
                            tag_value = val, isClosing = closing, tag_length = tagLen\<rparr>)"

section \<open>Number and colour syntax\<close>

definition is_digit :: "nat \<Rightarrow> bool" where
  "is_digit c = (48 \<le> c \<and> c \<le> 57)"

definition digits_value :: "jstring \<Rightarrow> nat" where
  "digits_value ds = foldl (\<lambda>a c. 10 * a + (c - 48)) 0 ds"

text \<open>The value of a hexadecimal digit, \<open>None\<close> for any other code unit.\<close>

definition hex_digit :: "nat \<Rightarrow> nat option" where
  "hex_digit c =
     (if 48 \<le> c \<and> c \<le> 57 then Some (c - 48)
      else if 97 \<le> c \<and> c \<le> 102 then Some (c - 87)
      else if 65 \<le> c \<and> c \<le> 70 then Some (c - 55)
      else None)"

definition is_hex :: "nat \<Rightarrow> bool" where
  "is_hex c = (hex_digit c \<noteq> None)"

definition hex_value :: "jstring \<Rightarrow> nat" where
  "hex_value ds = foldl (\<lambda>a c. 16 * a + the (hex_digit c)) 0 ds"

text \<open>An optional sign: the factor and the rest of the string.\<close>

definition take_sign :: "jstring \<Rightarrow> int \<times> jstring" where
  "take_sign s =
     (case s of
        c # r \<Rightarrow> if c = 45 then (- 1, r) else if c = 43 then (1, r) else (1, s)
      | [] \<Rightarrow> (1, s))"

text \<open>
  \<open>parseFloat\<close>: leading white space, then the longest prefix that is a decimal
  literal (sign, digits, fraction, exponent) or a signed \<open>Infinity\<close>; NaN when there
  is none.  The value is exact.
\<close>

definition exponent_part :: "jstring \<Rightarrow> int" where
  "exponent_part s =
     (case s of
        c # r \<Rightarrow>
          if c = 101 \<or> c = 69
          then (let (sg, r') = take_sign r; ds = takeWhile is_digit r'
                in if ds = [] then 0 else sg * int (digits_value ds))
          else 0
      | [] \<Rightarrow> 0)"

definition pow10 :: "int \<Rightarrow> rat" where
  "pow10 k = (if 0 \<le> k then 10 ^ nat k else 1 / 10 ^ nat (- k))"

definition parseFloat :: "jstring \<Rightarrow> num" where
  "parseFloat s =
     (let (sg, r) = take_sign (dropWhile is_space s) in
      if startsWith r (str ''Infinity'') then (if sg < 0 then NInf else PInf)
      else
        let ip = takeWhile is_digit r;
            r1 = dropWhile is_digit r;
            fp = (case r1 of c # r2 \<Rightarrow> if c = 46 then takeWhile is_digit r2 else [] | [] \<Rightarrow> []);
            r3 = (case r1 of c # r2 \<Rightarrow> if c = 46 then dropWhile is_digit r2 else r1 | [] \<Rightarrow> r1)
        in if ip = [] \<and> fp = [] then NaN
           else Fin (of_int sg
                     * (of_nat (digits_value ip) + of_nat (digits_value fp) / 10 ^ length fp)
                     * pow10 (exponent_part r3)))"

text \<open>
  \<open>parseInt(s, 16)\<close>: leading white space, a sign, an optional \<open>0x\<close>, then the longest
  prefix of hexadecimal digits; NaN when there is none.
\<close>

definition parseInt16 :: "jstring \<Rightarrow> num" where
  "parseInt16 s =
     (let (sg, r) = take_sign (dropWhile is_space s);
          r' = (if startsWith r (str ''0x'') \<or> startsWith r (str ''0X'') then drop 2 r else r);
          ds = takeWhile is_hex r'
      in if ds = [] then NaN else Fin (of_int (sg * int (hex_value ds))))"

text \<open>\<open>parseInt(s, 10)\<close>.\<close>

definition parseInt10 :: "jstring \<Rightarrow> num" where
  "parseInt10 s =
     (let (sg, r) = take_sign (dropWhile is_space s);
          ds = takeWhile is_digit r
      in if ds = [] then NaN else Fin (of_int (sg * int (digits_value ds))))"

text \<open>\<open>parseUnit(value, baseFontSize)\<close>.\<close>

definition parseUnit :: "jstring \<Rightarrow> num \<Rightarrow> num" where
  "parseUnit value0 baseFontSize =
     (let v = trim value0 in
      if endsWith v [37] then mul_n baseFontSize (div_n (parseFloat v) (Fin 100))
      else if endsWith v (str ''em'') then mul_n baseFontSize (parseFloat v)
      else if endsWith v (str ''px'') then parseFloat v
      else or_n (parseFloat v) (Fin 0))"

text \<open>The table \<open>NAMED_COLORS\<close>.\<close>

definition NAMED_COLORS :: "(jstring \<times> num) list" where
  "NAMED_COLORS =
     [(str ''black'', Fin 0), (str ''white'', Fin 16777215), (str ''red'', Fin 16711680),
      (str ''green'', Fin 65280), (str ''blue'', Fin 255), (str ''yellow'', Fin 16776960),
      (str ''cyan'', Fin 65535), (str ''magenta'', Fin 16711935), (str ''orange'', Fin 16744448),
      (str ''purple'', Fin 10494192), (str ''lightblue'', Fin 11393254),
      (str ''grey'', Fin 8421504), (str ''gray'', Fin 8421504)]"

text \<open>
  \<open>parseColor(value)\<close>.  The test \<open>NAMED_COLORS[value] !== undefined\<close> succeeds for the
  thirteen keys of the table and for the inherited members whose name has no upper-case
  letter, \<open>constructor\<close> and \<open>__proto__\<close>.
\<close>

definition parseColor :: "jstring \<Rightarrow> jsval" where
  "parseColor value0 =
     (let v = toLowerCase (trim value0) in
      case map_of NAMED_COLORS v of
        Some c \<Rightarrow> Number c
      | None \<Rightarrow>
          if v = str ''constructor'' \<or> v = str ''__proto__'' then Inherited v
          else
          let v1 = (if startsWith v [35] then drop 1 v
                    else if startsWith v (str ''0x'') then drop 2 v else v);
              v2 = (if length v1 = 3
                    then [v1 ! 0, v1 ! 0, v1 ! 1, v1 ! 1, v1 ! 2, v1 ! 2] else v1);
              v3 = (if length v2 = 4
                    then [v2 ! 0, v2 ! 0, v2 ! 1, v2 ! 1, v2 ! 2, v2 ! 2] else v2);
              v4 = (if length v3 = 8 then take 6 v3 else v3)
          in Number (or_n (parseInt16 v4) (Fin 0)))"

text \<open>\<open>parseAlpha(value)\<close>.\<close>

definition parseAlpha :: "jstring \<Rightarrow> num" where
  "parseAlpha value0 =
     (let v = trim value0;
          v1 = (if startsWith v [35] then drop 1 v else v);
          byte = parseInt16 v1
      in if isNaN byte then Fin 1 else div_n byte (Fin 255))"

section \<open>Attribute syntax inside tag values\<close>

text \<open>
  The regular expressions of the tag handlers have the shape
  \<open>key\s*=\s*["']?(class+)\<close>, matched case-insensitively at the leftmost position.
  \<open>match_attr_here\<close> matches at the start of \<open>s\<close> and returns the length of the match
  and the captured group; the character class never contains a quote or white space,
  so the greedy match is the only one.
\<close>

definition match_attr_here ::
    "jstring \<Rightarrow> (nat \<Rightarrow> bool) \<Rightarrow> (nat \<Rightarrow> bool) \<Rightarrow> jstring \<Rightarrow> (nat \<times> jstring) option" where
  "match_attr_here key quote cls s =
     (if length s < length key \<or> toLowerCase (take (length key) s) \<noteq> key then None
      else
        case dropWhile is_space (drop (length key) s) of
          [] \<Rightarrow> None
        | c # r2 \<Rightarrow>
            if c \<noteq> 61 then None
            else
              let r3 = dropWhile is_space r2;
                  r4 = (case r3 of q # r \<Rightarrow> if quote q then r else r3 | [] \<Rightarrow> r3);
                  cap = takeWhile cls r4
              in if cap = [] then None
                 else Some (length s - length r4 + length cap, cap))"

text \<open>The leftmost match: its start, its length and the captured group.\<close>

fun find_attr_from ::
    "nat \<Rightarrow> jstring \<Rightarrow> (nat \<Rightarrow> bool) \<Rightarrow> (nat \<Rightarrow> bool) \<Rightarrow> jstring
       \<Rightarrow> (nat \<times> nat \<times> jstring) option" where
  "find_attr_from k key quote cls [] =
     (case match_attr_here key quote cls [] of
        Some (l, cap) \<Rightarrow> Some (k, l, cap) | None \<Rightarrow> None)"
| "find_attr_from k key quote cls (c # r) =
     (case match_attr_here key quote cls (c # r) of
        Some (l, cap) \<Rightarrow> Some (k, l, cap)
      | None \<Rightarrow> find_attr_from (Suc k) key quote cls r)"

definition find_attr ::
    "jstring \<Rightarrow> (nat \<Rightarrow> bool) \<Rightarrow> (nat \<Rightarrow> bool) \<Rightarrow> jstring \<Rightarrow> (nat \<times> nat \<times> jstring) option" where
  "find_attr key quote cls s = find_attr_from 0 key quote cls s"

definition is_quote :: "nat \<Rightarrow> bool" where
  "is_quote c = (c = 34 \<or> c = 39)"

definition no_quote :: "nat \<Rightarrow> bool" where
  "no_quote c = False"

text \<open>The class \<open>[^\s,>"']\<close>.\<close>

definition attr_class :: "nat \<Rightarrow> bool" where
  "attr_class c = (\<not> is_space c \<and> c \<noteq> 44 \<and> c \<noteq> 62 \<and> c \<noteq> 34 \<and> c \<noteq> 39)"

text \<open>The class \<open>[^"'\s>]\<close>.\<close>

definition name_class :: "nat \<Rightarrow> bool" where
  "name_class c = (\<not> is_space c \<and> c \<noteq> 62 \<and> c \<noteq> 34 \<and> c \<noteq> 39)"

text \<open>\<open>parseColorAttribute(value)\<close>: \<open>/color\s*=\s*([^\s,>"']+)/i\<close>.\<close>

definition parseColorAttribute :: "jstring \<Rightarrow> jsval" where
  "parseColorAttribute v =
     (case find_attr (str ''color'') no_quote attr_class v of
        None \<Rightarrow> Number (Fin (- 1))
      | Some (_, _, cap) \<Rightarrow> parseColor cap)"

text \<open>\<open>parseAngleAttribute(value)\<close>: \<open>/angle\s*=\s*([^\s,>"']+)/i\<close>.\<close>

definition parseAngleAttribute :: "jstring \<Rightarrow> num" where
  "parseAngleAttribute v =
     (case find_attr (str ''angle'') no_quote attr_class v of
        None \<Rightarrow> Fin 0
      | Some (_, _, cap) \<Rightarrow> or_n (parseFloat cap) (Fin 0))"

text \<open>\<open>s.split(c)\<close> on one code unit.\<close>

fun split_on :: "nat \<Rightarrow> jstring \<Rightarrow> jstring list" where
  "split_on c [] = [[]]"
| "split_on c (x # xs) =
     (if x = c then [] # split_on c xs
      else (case split_on c xs of p # ps \<Rightarrow> (x # p) # ps | [] \<Rightarrow> [[x]]))"

text \<open>
  \<open>parsePaddingAttribute(value)\<close>: \<open>/padding\s*=\s*"?([^"'>]+)"?/i\<close>.  The class
  contains white space: when nothing of the class follows the white space after \<open>=\<close>,
  the match gives the last white space back and captures it.
\<close>

definition padding_class :: "nat \<Rightarrow> bool" where
  "padding_class c = (c \<noteq> 34 \<and> c \<noteq> 39 \<and> c \<noteq> 62)"

definition match_padding_here :: "jstring \<Rightarrow> jstring option" where
  "match_padding_here s =
     (if length s < 7 \<or> toLowerCase (take 7 s) \<noteq> str ''padding'' then None
      else
        case dropWhile is_space (drop 7 s) of
          [] \<Rightarrow> None
        | c # r2 \<Rightarrow>
            if c \<noteq> 61 then None
            else
              let ws = takeWhile is_space r2;
                  r3 = dropWhile is_space r2;
                  r4 = (case r3 of q # r \<Rightarrow> if q = 34 then r else r3 | [] \<Rightarrow> r3);
                  cap = takeWhile padding_class r4
              in if cap \<noteq> [] then Some cap
                 else if ws \<noteq> [] then Some (last ws # takeWhile padding_class r3)
                 else None)"

fun find_padding :: "jstring \<Rightarrow> jstring option" where
  "find_padding [] = match_padding_here []"
| "find_padding (c # r) =
     (case match_padding_here (c # r) of Some cap \<Rightarrow> Some cap | None \<Rightarrow> find_padding r)"

definition parsePaddingAttribute :: "jstring \<Rightarrow> num list" where
  "parsePaddingAttribute v =
     (case find_padding v of
        None \<Rightarrow> []
      | Some cap \<Rightarrow>
          let parts = map (\<lambda>s. or_n (parseFloat (trim s)) (Fin 0)) (split_on 44 cap)
          in if length parts = 1 then [parts ! 0, parts ! 0, parts ! 0, parts ! 0]
             else if length parts = 4 then parts
             else [])"

section \<open>Sprite tags\<close>

record SpriteTagResult =
  atlasName :: jstring
  sr_spriteName :: jstring
  sr_index :: num
  sr_tint :: num

text \<open>\<open>s.indexOf(m)\<close> for a string \<open>m\<close>.\<close>

fun indexOf_str :: "jstring \<Rightarrow> jstring \<Rightarrow> nat option" where
  "indexOf_str m [] = (if m = [] then Some 0 else None)"
| "indexOf_str m (c # r) =
     (if take (length m) (c # r) = m then Some 0 else map_option Suc (indexOf_str m r))"

text \<open>\<open>s.replace(/^["']|["']$/g, '')\<close>.\<close>

definition strip_edge_quotes :: "jstring \<Rightarrow> jstring" where
  "strip_edge_quotes s =
     (let s1 = (case s of c # r \<Rightarrow> if is_quote c then r else s | [] \<Rightarrow> s)
      in if s1 \<noteq> [] \<and> is_quote (last s1) then butlast s1 else s1)"

text \<open>The first match of \<open>/index\s*=\s*["']?(\d+)/i\<close> and of
  \<open>/tint\s*=\s*["']?#?([0-9a-fA-F]{3,8})/i\<close>.\<close>

definition match_tint_here :: "jstring \<Rightarrow> jstring option" where
  "match_tint_here s =
     (if length s < 4 \<or> toLowerCase (take 4 s) \<noteq> str ''tint'' then None
      else
        case dropWhile is_space (drop 4 s) of
          [] \<Rightarrow> None
        | c # r2 \<Rightarrow>
            if c \<noteq> 61 then None
            else
              let r3 = dropWhile is_space r2;
                  r4 = (case r3 of q # r \<Rightarrow> if is_quote q then r else r3 | [] \<Rightarrow> r3);
                  r5 = (case r4 of h # r \<Rightarrow> if h = 35 then r else r4 | [] \<Rightarrow> r4);
                  cap = take 8 (takeWhile is_hex r5)
              in if length cap < 3 then None else Some cap)"

fun find_tint :: "jstring \<Rightarrow> jstring option" where
  "find_tint [] = None"
| "find_tint (c # r) =
     (case match_tint_here (c # r) of Some cap \<Rightarrow> Some cap | None \<Rightarrow> find_tint r)"

text \<open>\<open>parseSpriteTag(value)\<close>.\<close>

definition parseSpriteTag :: "jstring \<Rightarrow> SpriteTagResult" where
  "parseSpriteTag value0 =
     (let trimmed = trim value0;
          (atlas, sname) =
            (case find_attr (str ''name'') is_quote name_class trimmed of
               Some (start, len, cap) \<Rightarrow>
                 (case indexOf_str (take len (drop start trimmed)) trimmed of
                    Some nameIdx \<Rightarrow>
                      if nameIdx > 0 then (strip_edge_quotes (trim (substring trimmed 0 nameIdx)), cap)
                      else ([], cap)
                  | None \<Rightarrow> ([], cap))
             | None \<Rightarrow>
                 (let leading = (case index_of 32 trimmed of
                                   Some firstSpace \<Rightarrow> substring trimmed 0 firstSpace
                                 | None \<Rightarrow> trimmed)
                  in ([], strip_edge_quotes leading)));
          idx = (case find_attr (str ''index'') is_quote is_digit trimmed of
                   Some (_, _, cap) \<Rightarrow> parseInt10 cap
                 | None \<Rightarrow> Fin (- 1));
          tint = (case find_tint trimmed of
                    Some cap \<Rightarrow> parseInt16 cap
                  | None \<Rightarrow> Fin (- 1))
      in \<lparr>atlasName = atlas, sr_spriteName = sname, sr_index = idx, sr_tint = tint\<rparr>)"

section \<open>The parser object and its tag handlers\<close>

text \<open>
  The mutable members of a \<open>RichTextParser\<close>: one stack per pushable property, and the
  variables captured by the handlers of \<open>registerFormattingTags\<close> (the four counters)
  and of \<open>registerFontTags\<close> (\<open>fontPushedMaterial\<close>).
\<close>

record Parser =
  colorStack :: "jsval TagStack"
  alphaStack :: "num TagStack"
  sizeStack :: "num TagStack"
  boldStack :: "bool TagStack"
  italicStack :: "bool TagStack"
  underlineStack :: "bool TagStack"
  strikethroughStack :: "bool TagStack"
  markStack :: "num TagStack"
  cspaceStack :: "num TagStack"
  mspaceStack :: "num TagStack"
  nobrStack :: "bool TagStack"
  alignStack :: "jstring TagStack"
  voffsetStack :: "num TagStack"
  indentStack :: "num TagStack"
  marginStack :: "num TagStack"
  lineHeightStack :: "num TagStack"
  allCapsStack :: "bool TagStack"
  lowercaseStack :: "bool TagStack"
  smallCapsStack :: "bool TagStack"
  superscriptStack :: "bool TagStack"
  subscriptStack :: "bool TagStack"
  linkStack :: "bool TagStack"
  linkIdStack :: "jstring TagStack"
  fontStack :: "jstring TagStack"
  charScaleStack :: "num TagStack"
  rotationStack :: "num TagStack"
  gradientStack :: "jsval list TagStack"
  widthStack :: "num TagStack"
  styleNameStack :: "jstring TagStack"
  fontWeightStack :: "jstring TagStack"
  lineIndentStack :: "num TagStack"
  materialStack :: "jstring TagStack"
  boldCount :: int
  italicCount :: int
  underlineCount :: int
  strikethroughCount :: int
  fontPushedMaterial :: "bool list"

text \<open>
  A handler changes the style state it is given and the members of the parser it has
  captured: \<open>onOpen(state, value, baseFontSize)\<close> and \<open>onClose(state)\<close>.
\<close>

type_synonym open_handler = "StyleState \<Rightarrow> jstring \<Rightarrow> num \<Rightarrow> Parser \<Rightarrow> StyleState \<times> Parser"
type_synonym close_handler = "StyleState \<Rightarrow> Parser \<Rightarrow> StyleState \<times> Parser"

record TagEntry =
  te_name :: jstring
  onOpen :: open_handler
  onClose :: close_handler

text \<open>\<open>TagRegistry\<close>: the map from the hash of a lower-cased name to its entry.\<close>

type_synonym TagRegistry = "int \<Rightarrow> TagEntry option"

definition register :: "jstring \<Rightarrow> open_handler \<Rightarrow> close_handler \<Rightarrow> TagRegistry \<Rightarrow> TagRegistry" where
  "register name onOpen' onClose' reg =
     reg(hashCode (toLowerCase name) \<mapsto>
           \<lparr>te_name = toLowerCase name, onOpen = onOpen', onClose = onClose'\<rparr>)"

definition getByHash :: "TagRegistry \<Rightarrow> int \<Rightarrow> TagEntry option" where
  "getByHash reg h = reg h"

definition noop_open :: open_handler where
  "noop_open st v base p = (st, p)"

definition noop_close :: close_handler where
  "noop_close st p = (st, p)"

subsection \<open>registerColorTags\<close>

definition color_open :: open_handler where
  "color_open st v base p =
     (let c = parseColor v in (st\<lparr>color := c\<rparr>, p\<lparr>colorStack := push c (colorStack p)\<rparr>))"

definition color_close :: close_handler where
  "color_close st p =
     (let (c, s) = pop (colorStack p) in (st\<lparr>color := c\<rparr>, p\<lparr>colorStack := s\<rparr>))"

definition alpha_open :: open_handler where
  "alpha_open st v base p =
     (let a = parseAlpha v in (st\<lparr>alpha := a\<rparr>, p\<lparr>alphaStack := push a (alphaStack p)\<rparr>))"

definition alpha_close :: close_handler where
  "alpha_close st p =
     (let (a, s) = pop (alphaStack p) in (st\<lparr>alpha := a\<rparr>, p\<lparr>alphaStack := s\<rparr>))"

definition registerColorTags :: "TagRegistry \<Rightarrow> TagRegistry" where
  "registerColorTags reg =
     register (str ''alpha'') alpha_open alpha_close
       (register (str ''color'') color_open color_close reg)"

subsection \<open>registerFormattingTags\<close>

definition b_open :: open_handler where
  "b_open st v base p =
     (st\<lparr>bold := True\<rparr>,
      p\<lparr>boldCount := boldCount p + 1, boldStack := push True (boldStack p)\<rparr>)"

definition b_close :: close_handler where
  "b_close st p =
     (let n = max 0 (boldCount p - 1)
      in (st\<lparr>bold := (n > 0)\<rparr>, p\<lparr>boldCount := n, boldStack := snd (pop (boldStack p))\<rparr>))"

definition i_open :: open_handler where
  "i_open st v base p =
     (let st1 = st\<lparr>italic := True\<rparr>;
          st2 = (if v \<noteq> []
                 then (let angle = parseAngleAttribute v
                       in if \<not> eq_n angle (Fin 0) then st1\<lparr>italicAngle := angle\<rparr> else st1)
                 else st1)
      in (st2, p\<lparr>italicCount := italicCount p + 1, italicStack := push True (italicStack p)\<rparr>))"

definition i_close :: close_handler where
  "i_close st p =
     (let n = max 0 (italicCount p - 1);
          st1 = st\<lparr>italic := (n > 0)\<rparr>;
          st2 = (if \<not> italic st1 then st1\<lparr>italicAngle := Fin 0\<rparr> else st1)
      in (st2, p\<lparr>italicCount := n, italicStack := snd (pop (italicStack p))\<rparr>))"

definition u_open :: open_handler where
  "u_open st v base p =
     (let st1 = st\<lparr>underline := True\<rparr>;
          st2 = (if v \<noteq> []
                 then (let c = parseColorAttribute v
                       in if \<not> eq_v c (Number (Fin (- 1))) then st1\<lparr>underlineColor := c\<rparr> else st1)
                 else st1)
      in (st2, p\<lparr>underlineCount := underlineCount p + 1,
                underlineStack := push True (underlineStack p)\<rparr>))"

definition u_close :: close_handler where
  "u_close st p =
     (let n = max 0 (underlineCount p - 1);
          st1 = st\<lparr>underline := (n > 0)\<rparr>;
          st2 = (if \<not> underline st1 then st1\<lparr>underlineColor := Number (Fin (- 1))\<rparr> else st1)
      in (st2, p\<lparr>underlineCount := n, underlineStack := snd (pop (underlineStack p))\<rparr>))"

definition s_open :: open_handler where
  "s_open st v base p =
     (let st1 = st\<lparr>strikethrough := True\<rparr>;
          st2 = (if v \<noteq> []
                 then (let c = parseColorAttribute v
                       in if \<not> eq_v c (Number (Fin (- 1))) then st1\<lparr>strikethroughColor := c\<rparr> else st1)
                 else st1)
      in (st2, p\<lparr>strikethroughCount := strikethroughCount p + 1,
                strikethroughStack := push True (strikethroughStack p)\<rparr>))"

definition s_close :: close_handler where
  "s_close st p =
     (let n = max 0 (strikethroughCount p - 1);
          st1 = st\<lparr>strikethrough := (n > 0)\<rparr>;
          st2 = (if \<not> strikethrough st1 then st1\<lparr>strikethroughColor := Number (Fin (- 1))\<rparr> else st1)
      in (st2, p\<lparr>strikethroughCount := n,
                strikethroughStack := snd (pop (strikethroughStack p))\<rparr>))"

text \<open>\<open>x >>> 0\<close>.\<close>

definition ushr0_n :: "num \<Rightarrow> num" where
  "ushr0_n a = int_n (to_int32 a mod 2 ^ 32)"

text \<open>\<open>s.replace('#', '')\<close>: the first \<open>#\<close> is removed.\<close>

fun remove_first :: "nat \<Rightarrow> jstring \<Rightarrow> jstring" where
  "remove_first c [] = []"
| "remove_first c (x # xs) = (if x = c then xs else x # remove_first c xs)"

definition mark_open :: open_handler where
  "mark_open st v base p =
     (if v \<noteq> []
      then (let colorPart = takeWhile (\<lambda>c. \<not> is_space c) v;
                hex = remove_first 35 colorPart;
                c = (if length hex = 8
                     then (let rgb = parseInt16 (substring hex 0 6);
                               al = parseInt16 (substring hex 6 8)
                           in ushr0_n (or_bits_n (shl_n al 24) rgb))
                     else parseInt16 hex);
                padding = parsePaddingAttribute v;
                st1 = (if length padding > 0 then st\<lparr>markPadding := padding\<rparr> else st)
            in (st1\<lparr>markColor := c\<rparr>, p\<lparr>markStack := push c (markStack p)\<rparr>))
      else (st\<lparr>markColor := Fin 16776960\<rparr>,
            p\<lparr>markStack := push (Fin 16776960) (markStack p)\<rparr>))"

definition mark_close :: close_handler where
  "mark_close st p =
     (let (c, s) = pop (markStack p)
      in (st\<lparr>markColor := c, markPadding := []\<rparr>, p\<lparr>markStack := s\<rparr>))"

definition registerFormattingTags :: "TagRegistry \<Rightarrow> TagRegistry" where
  "registerFormattingTags reg =
     register (str ''mark'') mark_open mark_close
       (register (str ''strikethrough'') s_open s_close
         (register (str ''s'') s_open s_close
           (register (str ''u'') u_open u_close
             (register (str ''i'') i_open i_close
               (register (str ''b'') b_open b_close reg)))))"

subsection \<open>registerSizeTags\<close>

definition size_open :: open_handler where
  "size_open st v base p =
     (let trimmed = trim v;
          size = (if startsWith trimmed [43] \<or> startsWith trimmed [45]
                  then add_n (fontSize st) (parseFloat trimmed)
                  else parseUnit trimmed base)
      in (st\<lparr>fontSize := size\<rparr>, p\<lparr>sizeStack := push size (sizeStack p)\<rparr>))"

definition size_close :: close_handler where
  "size_close st p =
     (let (v, s) = pop (sizeStack p) in (st\<lparr>fontSize := v\<rparr>, p\<lparr>sizeStack := s\<rparr>))"

definition cspace_open :: open_handler where
  "cspace_open st v base p =
     (let spacing = parseUnit v base
      in (st\<lparr>cspace := spacing\<rparr>, p\<lparr>cspaceStack := push spacing (cspaceStack p)\<rparr>))"

definition cspace_close :: close_handler where
  "cspace_close st p =
     (let (v, s) = pop (cspaceStack p) in (st\<lparr>cspace := v\<rparr>, p\<lparr>cspaceStack := s\<rparr>))"

definition mspace_open :: open_handler where
  "mspace_open st v base p =
     (let w = parseUnit v base
      in (st\<lparr>mspace := w\<rparr>, p\<lparr>mspaceStack := push w (mspaceStack p)\<rparr>))"

definition mspace_close :: close_handler where
  "mspace_close st p =
     (let (v, s) = pop (mspaceStack p) in (st\<lparr>mspace := v\<rparr>, p\<lparr>mspaceStack := s\<rparr>))"

definition registerSizeTags :: "TagRegistry \<Rightarrow> TagRegistry" where
  "registerSizeTags reg =
     register (str ''duospace'') mspace_open mspace_close
       (register (str ''mspace'') mspace_open mspace_close
         (register (str ''cspace'') cspace_open cspace_close
           (register (str ''size'') size_open size_close reg)))"

subsection \<open>registerSpecialTags\<close>

definition nobr_open :: open_handler where
  "nobr_open st v base p = (st\<lparr>isNoBreak := True\<rparr>, p\<lparr>nobrStack := push True (nobrStack p)\<rparr>)"

definition nobr_close :: close_handler where
  "nobr_close st p =
     (let (v, s) = pop (nobrStack p) in (st\<lparr>isNoBreak := v\<rparr>, p\<lparr>nobrStack := s\<rparr>))"

definition registerSpecialTags :: "TagRegistry \<Rightarrow> TagRegistry" where
  "registerSpecialTags reg =
     register (str ''zwj'') noop_open noop_close
       (register (str ''cr'') noop_open noop_close
         (register (str ''noparse'') noop_open noop_close
           (register (str ''em-space'') noop_open noop_close
             (register (str ''en-space'') noop_open noop_close
               (register (str ''shy'') noop_open noop_close
                 (register (str ''softhyphen'') noop_open noop_close
                   (register (str ''zwsp'') noop_open noop_close
                     (register (str ''nbsp'') noop_open noop_close
                       (register (str ''br'') noop_open noop_close
                         (register (str ''nobr'') nobr_open nobr_close reg))))))))))"

subsection \<open>registerLayoutTags\<close>

definition align_open :: open_handler where
  "align_open st v base p =
     (let a = toLowerCase v in (st\<lparr>align := a\<rparr>, p\<lparr>alignStack := push a (alignStack p)\<rparr>))"

definition align_close :: close_handler where
  "align_close st p =
     (let (v, s) = pop (alignStack p) in (st\<lparr>align := v\<rparr>, p\<lparr>alignStack := s\<rparr>))"

definition voffset_open :: open_handler where
  "voffset_open st v base p =
     (let off = parseUnit v base
      in (st\<lparr>voffset := off\<rparr>, p\<lparr>voffsetStack := push off (voffsetStack p)\<rparr>))"

definition voffset_close :: close_handler where
  "voffset_close st p =
     (let (v, s) = pop (voffsetStack p) in (st\<lparr>voffset := v\<rparr>, p\<lparr>voffsetStack := s\<rparr>))"

definition indent_open :: open_handler where
  "indent_open st v base p =
     (let ind = parseUnit v base
      in (st\<lparr>indent := ind\<rparr>, p\<lparr>indentStack := push ind (indentStack p)\<rparr>))"

definition indent_close :: close_handler where
  "indent_close st p =
     (let (v, s) = pop (indentStack p) in (st\<lparr>indent := v\<rparr>, p\<lparr>indentStack := s\<rparr>))"

definition margin_open :: open_handler where
  "margin_open st v base p =
     (let m = parseUnit v base
      in (st\<lparr>marginLeft := m, marginRight := m\<rparr>, p\<lparr>marginStack := push m (marginStack p)\<rparr>))"

definition margin_close :: close_handler where
  "margin_close st p =
     (let (prev, s) = pop (marginStack p)
      in (st\<lparr>marginLeft := prev, marginRight := prev\<rparr>, p\<lparr>marginStack := s\<rparr>))"

definition margin_left_open :: open_handler where
  "margin_left_open st v base p = (st\<lparr>marginLeft := parseUnit v base\<rparr>, p)"

definition margin_left_close :: close_handler where
  "margin_left_close st p = (st\<lparr>marginLeft := Fin 0\<rparr>, p)"

definition margin_right_open :: open_handler where
  "margin_right_open st v base p = (st\<lparr>marginRight := parseUnit v base\<rparr>, p)"

definition margin_right_close :: close_handler where
  "margin_right_close st p = (st\<lparr>marginRight := Fin 0\<rparr>, p)"

definition line_height_open :: open_handler where
  "line_height_open st v base p =
     (let lh = parseUnit v base
      in (st\<lparr>lineHeightOverride := lh\<rparr>, p\<lparr>lineHeightStack := push lh (lineHeightStack p)\<rparr>))"

definition line_height_close :: close_handler where
  "line_height_close st p =
     (let (v, s) = pop (lineHeightStack p)
      in (st\<lparr>lineHeightOverride := v\<rparr>, p\<lparr>lineHeightStack := s\<rparr>))"

definition line_indent_open :: open_handler where
  "line_indent_open st v base p =
     (let ind = parseUnit v base
      in (st\<lparr>lineIndent := ind\<rparr>, p\<lparr>lineIndentStack := push ind (lineIndentStack p)\<rparr>))"

definition line_indent_close :: close_handler where
  "line_indent_close st p =
     (let (v, s) = pop (lineIndentStack p) in (st\<lparr>lineIndent := v\<rparr>, p\<lparr>lineIndentStack := s\<rparr>))"

definition registerLayoutTags :: "TagRegistry \<Rightarrow> TagRegistry" where
  "registerLayoutTags reg =
     register (str ''line-indent'') line_indent_open line_indent_close
       (register (str ''pos'') noop_open noop_close
         (register (str ''space'') noop_open noop_close
           (register (str ''line-height'') line_height_open line_height_close
             (register (str ''padding'') margin_open margin_close
               (register (str ''margin-right'') margin_right_open margin_right_close
                 (register (str ''margin-left'') margin_left_open margin_left_close
                   (register (str ''margin'') margin_open margin_close
                     (register (str ''indent'') indent_open indent_close
                       (register (str ''voffset'') voffset_open voffset_close
                         (register (str ''align'') align_open align_close reg))))))))))"

subsection \<open>registerCaseTags\<close>

definition allcaps_open :: open_handler where
  "allcaps_open st v base p =
     (st\<lparr>isAllCaps := True\<rparr>, p\<lparr>allCapsStack := push True (allCapsStack p)\<rparr>)"

definition allcaps_close :: close_handler where
  "allcaps_close st p =
     (let (v, s) = pop (allCapsStack p) in (st\<lparr>isAllCaps := v\<rparr>, p\<lparr>allCapsStack := s\<rparr>))"

definition lowercase_open :: open_handler where
  "lowercase_open st v base p =
     (st\<lparr>isLowercase := True\<rparr>, p\<lparr>lowercaseStack := push True (lowercaseStack p)\<rparr>)"

definition lowercase_close :: close_handler where
  "lowercase_close st p =
     (let (v, s) = pop (lowercaseStack p) in (st\<lparr>isLowercase := v\<rparr>, p\<lparr>lowercaseStack := s\<rparr>))"

definition smallcaps_open :: open_handler where
  "smallcaps_open st v base p =
     (st\<lparr>isSmallCaps := True\<rparr>, p\<lparr>smallCapsStack := push True (smallCapsStack p)\<rparr>)"

definition smallcaps_close :: close_handler where
  "smallcaps_close st p =
     (let (v, s) = pop (smallCapsStack p) in (st\<lparr>isSmallCaps := v\<rparr>, p\<lparr>smallCapsStack := s\<rparr>))"

definition sup_open :: open_handler where
  "sup_open st v base p =
     (let newSize = mul_n (fontSize st) (Fin (1 / 2));
          off = mul_n base (Fin (- 35 / 100))
      in (st\<lparr>isSuperscript := True, fontSize := newSize, voffset := off\<rparr>,
          p\<lparr>superscriptStack := push True (superscriptStack p),
            sizeStack := push newSize (sizeStack p),
            voffsetStack := push off (voffsetStack p)\<rparr>))"

definition sup_close :: close_handler where
  "sup_close st p =
     (let (b, s1) = pop (superscriptStack p);
          (sz, s2) = pop (sizeStack p);
          (vo, s3) = pop (voffsetStack p)
      in (st\<lparr>isSuperscript := b, fontSize := sz, voffset := vo\<rparr>,
          p\<lparr>superscriptStack := s1, sizeStack := s2, voffsetStack := s3\<rparr>))"

definition sub_open :: open_handler where
  "sub_open st v base p =
     (let newSize = mul_n (fontSize st) (Fin (1 / 2));
          off = mul_n base (Fin (15 / 100))
      in (st\<lparr>isSubscript := True, fontSize := newSize, voffset := off\<rparr>,
          p\<lparr>subscriptStack := push True (subscriptStack p),
            sizeStack := push newSize (sizeStack p),
            voffsetStack := push off (voffsetStack p)\<rparr>))"

definition sub_close :: close_handler where
  "sub_close st p =
     (let (b, s1) = pop (subscriptStack p);
          (sz, s2) = pop (sizeStack p);
          (vo, s3) = pop (voffsetStack p)
      in (st\<lparr>isSubscript := b, fontSize := sz, voffset := vo\<rparr>,
          p\<lparr>subscriptStack := s1, sizeStack := s2, voffsetStack := s3\<rparr>))"

definition registerCaseTags :: "TagRegistry \<Rightarrow> TagRegistry" where
  "registerCaseTags reg =
     register (str ''sub'') sub_open sub_close
       (register (str ''sup'') sup_open sup_close
         (register (str ''smallcaps'') smallcaps_open smallcaps_close
           (register (str ''lowercase'') lowercase_open lowercase_close
             (register (str ''uppercase'') allcaps_open allcaps_close
               (register (str ''allcaps'') allcaps_open allcaps_close reg)))))"

subsection \<open>registerLinkTags\<close>

definition link_open :: open_handler where
  "link_open st v base p =
     (st\<lparr>isLink := True, linkId := v\<rparr>,
      p\<lparr>linkStack := push True (linkStack p), linkIdStack := push v (linkIdStack p)\<rparr>)"

definition link_close :: close_handler where
  "link_close st p =
     (let (b, s1) = pop (linkStack p); (v, s2) = pop (linkIdStack p)
      in (st\<lparr>isLink := b, linkId := v\<rparr>, p\<lparr>linkStack := s1, linkIdStack := s2\<rparr>))"

text \<open>\<open><a href="url">\<close>: \<open>/href\s*=\s*["']?([^"'>\s]+)/i\<close>.\<close>

definition a_open :: open_handler where
  "a_open st v base p =
     (let url = (case find_attr (str ''href'') is_quote name_class v of
                   Some (_, _, cap) \<Rightarrow> cap | None \<Rightarrow> v)
      in link_open st url base p)"

definition registerLinkTags :: "TagRegistry \<Rightarrow> TagRegistry" where
  "registerLinkTags reg =
     register (str ''a'') a_open link_close (register (str ''link'') link_open link_close reg)"

subsection \<open>registerFontTags\<close>

definition stripQuotes :: "jstring \<Rightarrow> jstring" where
  "stripQuotes s0 =
     (let s = trim s0 in
      if (startsWith s [34] \<and> endsWith s [34]) \<or> (startsWith s [39] \<and> endsWith s [39])
      then slice_1_m1 s
      else
        let s1 = (if endsWith s [34] \<or> endsWith s [39] then butlast s else s);
            s2 = (if startsWith s1 [34] \<or> startsWith s1 [39] then drop 1 s1 else s1)
        in trim s2)"

text \<open>A match of \<open>/["']?\s+material\s*=\s*["']?/i\<close> at the start of \<open>s\<close>: its length.\<close>

definition match_material_here :: "jstring \<Rightarrow> nat option" where
  "match_material_here s =
     (let s1 = (case s of q # r \<Rightarrow> if is_quote q then r else s | [] \<Rightarrow> s);
          r = dropWhile is_space s1
      in if takeWhile is_space s1 = [] then None
         else if length r < 8 \<or> toLowerCase (take 8 r) \<noteq> str ''material'' then None
         else
           case dropWhile is_space (drop 8 r) of
             [] \<Rightarrow> None
           | c # r3 \<Rightarrow>
               if c \<noteq> 61 then None
               else
                 let r4 = dropWhile is_space r3;
                     r5 = (case r4 of q # r' \<Rightarrow> if is_quote q then r' else r4 | [] \<Rightarrow> r4)
                 in Some (length s - length r5))"

fun find_material :: "nat \<Rightarrow> jstring \<Rightarrow> (nat \<times> nat) option" where
  "find_material k [] = None"
| "find_material k (c # r) =
     (case match_material_here (c # r) of
        Some l \<Rightarrow> Some (k, l) | None \<Rightarrow> find_material (Suc k) r)"

definition parseFontValue :: "jstring \<Rightarrow> jstring \<times> jstring" where
  "parseFontValue raw =
     (case find_material 0 raw of
        None \<Rightarrow> (stripQuotes raw, [])
      | Some (idx, len) \<Rightarrow> (stripQuotes (substring raw 0 idx), stripQuotes (drop (idx + len) raw)))"

definition font_open :: open_handler where
  "font_open st v base p =
     (let (fontName, materialName) = parseFontValue v;
          st1 = st\<lparr>fontFamily := fontName\<rparr>;
          p1 = p\<lparr>fontStack := push fontName (fontStack p)\<rparr>
      in if materialName \<noteq> []
         then (st1\<lparr>material := materialName\<rparr>,
               p1\<lparr>materialStack := push materialName (materialStack p1),
                  fontPushedMaterial := fontPushedMaterial p1 @ [True]\<rparr>)
         else (st1, p1\<lparr>fontPushedMaterial := fontPushedMaterial p1 @ [False]\<rparr>))"

definition font_close :: close_handler where
  "font_close st p =
     (let (f, s) = pop (fontStack p);
          st1 = st\<lparr>fontFamily := f\<rparr>;
          pushed = (if fontPushedMaterial p = [] then False else last (fontPushedMaterial p));
          p1 = p\<lparr>fontStack := s, fontPushedMaterial := butlast (fontPushedMaterial p)\<rparr>
      in if pushed
         then (let (m, s') = pop (materialStack p1)
               in (st1\<lparr>material := m\<rparr>, p1\<lparr>materialStack := s'\<rparr>))
         else (st1, p1))"

definition font_weight_open :: open_handler where
  "font_weight_open st v base p =
     (st\<lparr>fontWeight := v\<rparr>, p\<lparr>fontWeightStack := push v (fontWeightStack p)\<rparr>)"

definition font_weight_close :: close_handler where
  "font_weight_close st p =
     (let (v, s) = pop (fontWeightStack p) in (st\<lparr>fontWeight := v\<rparr>, p\<lparr>fontWeightStack := s\<rparr>))"

definition registerFontTags :: "TagRegistry \<Rightarrow> TagRegistry" where
  "registerFontTags reg =
     register (str ''font-weight'') font_weight_open font_weight_close
       (register (str ''font'') font_open font_close reg)"

subsection \<open>registerTransformTags\<close>

definition scale_open :: open_handler where
  "scale_open st v base p =
     (let n = parseFloat v
      in if \<not> isNaN n
         then (st\<lparr>charScale := n\<rparr>, p\<lparr>charScaleStack := push n (charScaleStack p)\<rparr>)
         else (st, p))"

definition scale_close :: close_handler where
  "scale_close st p =
     (let (v, s) = pop (charScaleStack p) in (st\<lparr>charScale := v\<rparr>, p\<lparr>charScaleStack := s\<rparr>))"

definition rotate_open :: open_handler where
  "rotate_open st v base p =
     (let n = parseFloat v
      in if \<not> isNaN n
         then (st\<lparr>rotation := n\<rparr>, p\<lparr>rotationStack := push n (rotationStack p)\<rparr>)
         else (st, p))"

definition rotate_close :: close_handler where
  "rotate_close st p =
     (let (v, s) = pop (rotationStack p) in (st\<lparr>rotation := v\<rparr>, p\<lparr>rotationStack := s\<rparr>))"

definition registerTransformTags :: "TagRegistry \<Rightarrow> TagRegistry" where
  "registerTransformTags reg =
     register (str ''rotate'') rotate_open rotate_close
       (register (str ''scale'') scale_open scale_close reg)"

subsection \<open>registerGradientTags\<close>

definition parseGradientValue :: "jstring \<Rightarrow> jsval list" where
  "parseGradientValue v =
     map parseColor (filter (\<lambda>s. length s > 0) (map trim (split_on 44 v)))"

definition gradient_open :: open_handler where
  "gradient_open st v base p =
     (let colors = parseGradientValue v
      in if length colors \<ge> 2
         then (st\<lparr>gradientColors := colors\<rparr>, p\<lparr>gradientStack := push colors (gradientStack p)\<rparr>)
         else (st, p))"

definition gradient_close :: close_handler where
  "gradient_close st p =
     (let (v, s) = pop (gradientStack p) in (st\<lparr>gradientColors := v\<rparr>, p\<lparr>gradientStack := s\<rparr>))"

definition registerGradientTags :: "TagRegistry \<Rightarrow> TagRegistry" where
  "registerGradientTags reg = register (str ''gradient'') gradient_open gradient_close reg"

subsection \<open>The constructor\<close>

definition width_open :: open_handler where
  "width_open st v base p =
     (let w = parseUnit v base
      in (st\<lparr>widthConstraint := w\<rparr>, p\<lparr>widthStack := push w (widthStack p)\<rparr>))"

definition width_close :: close_handler where
  "width_close st p =
     (let (v, s) = pop (widthStack p) in (st\<lparr>widthConstraint := v\<rparr>, p\<lparr>widthStack := s\<rparr>))"

definition material_open :: open_handler where
  "material_open st v base p =
     (st\<lparr>material := v\<rparr>, p\<lparr>materialStack := push v (materialStack p)\<rparr>)"

definition material_close :: close_handler where
  "material_close st p =
     (let (v, s) = pop (materialStack p) in (st\<lparr>material := v\<rparr>, p\<lparr>materialStack := s\<rparr>))"

text \<open>The registry after \<open>new RichTextParser()\<close>, in the order of the registrations.\<close>

definition new_registry :: TagRegistry where
  "new_registry =
     register (str ''style'') noop_open noop_close
       (register (str ''material'') material_open material_close
         (register (str ''width'') width_open width_close
           (registerGradientTags (registerTransformTags (registerFontTags (registerLinkTags
             (registerCaseTags (registerLayoutTags (registerSpecialTags (registerSizeTags
               (registerFormattingTags (registerColorTags Map.empty))))))))))))"

text \<open>The members after \<open>new RichTextParser()\<close>.\<close>

definition new_Parser :: Parser where
  "new_Parser =
     \<lparr>colorStack = new_TagStack (Number (Fin 16777215)), alphaStack = new_TagStack (Fin 1),
      sizeStack = new_TagStack (Fin 32), boldStack = new_TagStack False,
      italicStack = new_TagStack False, underlineStack = new_TagStack False,
      strikethroughStack = new_TagStack False, markStack = new_TagStack (Fin 0),
      cspaceStack = new_TagStack (Fin 0), mspaceStack = new_TagStack (Fin 0),
      nobrStack = new_TagStack False, alignStack = new_TagStack [],
      voffsetStack = new_TagStack (Fin 0), indentStack = new_TagStack (Fin 0),
      marginStack = new_TagStack (Fin 0), lineHeightStack = new_TagStack (Fin 0),
      allCapsStack = new_TagStack False, lowercaseStack = new_TagStack False,
      smallCapsStack = new_TagStack False, superscriptStack = new_TagStack False,
      subscriptStack = new_TagStack False, linkStack = new_TagStack False,
      linkIdStack = new_TagStack [], fontStack = new_TagStack [],
      charScaleStack = new_TagStack (Fin 1), rotationStack = new_TagStack (Fin 0),
      gradientStack = new_TagStack [], widthStack = new_TagStack (Fin 0),
      styleNameStack = new_TagStack [], fontWeightStack = new_TagStack [],
      lineIndentStack = new_TagStack (Fin 0), materialStack = new_TagStack [],
      boldCount = 0, italicCount = 0, underlineCount = 0, strikethroughCount = 0,
      fontPushedMaterial = []\<rparr>"

text \<open>The resets at the start of \<open>parse\<close>.\<close>

definition reset_stacks :: "num \<Rightarrow> num \<Rightarrow> jstring \<Rightarrow> Parser \<Rightarrow> Parser" where
  "reset_stacks baseFontSize baseColor baseFontFamily p =
     p\<lparr>colorStack := reset (Number baseColor) (colorStack p), alphaStack := reset (Fin 1) (alphaStack p),
       sizeStack := reset baseFontSize (sizeStack p), boldStack := reset False (boldStack p),
       italicStack := reset False (italicStack p), underlineStack := reset False (underlineStack p),
       strikethroughStack := reset False (strikethroughStack p),
       markStack := reset (Fin 0) (markStack p), cspaceStack := reset (Fin 0) (cspaceStack p),
       mspaceStack := reset (Fin 0) (mspaceStack p), nobrStack := reset False (nobrStack p),
       alignStack := reset [] (alignStack p), voffsetStack := reset (Fin 0) (voffsetStack p),
       indentStack := reset (Fin 0) (indentStack p), marginStack := reset (Fin 0) (marginStack p),
       lineHeightStack := reset (Fin 0) (lineHeightStack p),
       allCapsStack := reset False (allCapsStack p), lowercaseStack := reset False (lowercaseStack p),
       smallCapsStack := reset False (smallCapsStack p),
       superscriptStack := reset False (superscriptStack p),
       subscriptStack := reset False (subscriptStack p), linkStack := reset False (linkStack p),
       linkIdStack := reset [] (linkIdStack p), fontStack := reset baseFontFamily (fontStack p),
       charScaleStack := reset (Fin 1) (charScaleStack p),
       rotationStack := reset (Fin 0) (rotationStack p),
       gradientStack := reset [] (gradientStack p), widthStack := reset (Fin 0) (widthStack p),
       styleNameStack := reset [] (styleNameStack p),
       fontWeightStack := reset [] (fontWeightStack p),
       lineIndentStack := reset (Fin 0) (lineIndentStack p),
       materialStack := reset [] (materialStack p)\<rparr>"

section \<open>Style sheets\<close>

record TMPStylePreset =
  preset_open :: jstring
  preset_close :: jstring

text \<open>\<open>TMPStyleSheet\<close>: the presets by lower-cased name.\<close>

type_synonym TMPStyleSheet = "(jstring \<times> TMPStylePreset) list"

definition sheet_get :: "TMPStyleSheet \<Rightarrow> jstring \<Rightarrow> TMPStylePreset option" where
  "sheet_get sheet name = map_of sheet (toLowerCase name)"

definition sheet_set :: "jstring \<Rightarrow> TMPStylePreset \<Rightarrow> TMPStyleSheet \<Rightarrow> TMPStyleSheet" where
  "sheet_set name preset sheet = AList.update (toLowerCase name) preset sheet"

section \<open>The markup parser\<close>

lemma tryParseTag_length_pos: "tryParseTag text pos = Some tag \<Longrightarrow> 0 < tag_length tag"
  by (auto simp: tryParseTag_def Let_def split: option.splits if_splits prod.splits)

text \<open>
  \<open>_applyStylePresetOpen\<close> and \<open>_applyStylePresetClose\<close>: the loop over the preset's
  markup, from index \<open>j\<close>.
\<close>

function applyStylePresetOpen ::
    "TagRegistry \<Rightarrow> jstring \<Rightarrow> num \<Rightarrow> nat \<Rightarrow> StyleState \<times> Parser \<Rightarrow> StyleState \<times> Parser" where
  "applyStylePresetOpen reg openMarkup base j sp =
     (if j < length openMarkup
      then (if openMarkup ! j = 60
            then (case tryParseTag openMarkup j of
                    Some tag \<Rightarrow>
                      if \<not> isClosing tag
                      then applyStylePresetOpen reg openMarkup base (j + tag_length tag)
                             (case getByHash reg (tagNameHash tag) of
                                Some entry \<Rightarrow> onOpen entry (fst sp) (tag_value tag) base (snd sp)
                              | None \<Rightarrow> sp)
                      else applyStylePresetOpen reg openMarkup base (j + 1) sp
                  | None \<Rightarrow> applyStylePresetOpen reg openMarkup base (j + 1) sp)
            else applyStylePresetOpen reg openMarkup base (j + 1) sp)
      else sp)"
  by pat_completeness auto
termination
  by (relation "measure (\<lambda>(reg, m, base, j, sp). length m - j)")
    (auto dest: tryParseTag_length_pos)

function applyStylePresetClose ::
    "TagRegistry \<Rightarrow> jstring \<Rightarrow> num \<Rightarrow> nat \<Rightarrow> StyleState \<times> Parser \<Rightarrow> StyleState \<times> Parser" where
  "applyStylePresetClose reg closeMarkup base j sp =
     (if j < length closeMarkup
      then (if closeMarkup ! j = 60
            then (case tryParseTag closeMarkup j of
                    Some tag \<Rightarrow>
                      if isClosing tag
                      then applyStylePresetClose reg closeMarkup base (j + tag_length tag)
                             (case getByHash reg (tagNameHash tag) of
                                Some entry \<Rightarrow> onClose entry (fst sp) (snd sp)
                              | None \<Rightarrow> sp)
                      else applyStylePresetClose reg closeMarkup base (j + 1) sp
                  | None \<Rightarrow> applyStylePresetClose reg closeMarkup base (j + 1) sp)
            else applyStylePresetClose reg closeMarkup base (j + 1) sp)
      else sp)"
  by pat_completeness auto
termination
  by (relation "measure (\<lambda>(reg, m, base, j, sp). length m - j)")
    (auto dest: tryParseTag_length_pos)

text \<open>The local variables of \<open>parse\<close>, with the parser's members.\<close>

record ParseLoop =
  result :: "ParsedChar list"
  lp_parser :: Parser
  lp_state :: StyleState
  noparse :: bool
  pendingSpace :: num
  pendingPos :: num
  pos :: nat

text \<open>\<open>result.push(pc); i += n\<close>.\<close>

definition emit :: "ParsedChar \<Rightarrow> nat \<Rightarrow> ParseLoop \<Rightarrow> ParseLoop" where
  "emit pc n l = l\<lparr>result := result l @ [pc], pos := pos l + n\<rparr>"

text \<open>The pending space and position are given to \<open>pc\<close> and cleared.\<close>

definition apply_pending :: "ParsedChar \<Rightarrow> ParseLoop \<Rightarrow> ParsedChar \<times> ParseLoop" where
  "apply_pending pc l =
     (let (pc1, l1) = (if \<not> eq_n (pendingSpace l) (Fin 0)
                       then (pc\<lparr>extraSpace := pendingSpace l\<rparr>, l\<lparr>pendingSpace := Fin 0\<rparr>)
                       else (pc, l))
      in if \<not> isNaN (pendingPos l1)
         then (pc1\<lparr>fixedPosition := pendingPos l1\<rparr>, l1\<lparr>pendingPos := NaN\<rparr>)
         else (pc1, l1))"

text \<open>A \<open><\<close> met in no-parse mode.\<close>

definition step_noparse :: "jstring \<Rightarrow> ParseLoop \<Rightarrow> ParseLoop" where
  "step_noparse text l =
     (let i = pos l in
      if toLowerCase (substring text i (i + 10)) = str ''</noparse>''
      then l\<lparr>noparse := False, pos := i + 10\<rparr>
      else emit (createParsedChar [60] i (lp_state l)) 1 l)"

text \<open>The shorthand \<open><#RRGGBB>\<close> and its close \<open></#>\<close>; \<open>None\<close> when the text at \<open>i\<close>
  is neither.\<close>

definition step_color_shorthand :: "jstring \<Rightarrow> ParseLoop \<Rightarrow> ParseLoop option" where
  "step_color_shorthand text l =
     (let i = pos l in
      if i + 1 < length text \<and> text ! (i + 1) = 35
      then (case indexOf_from text 62 (i + 2) of
              Some closeIdx \<Rightarrow>
                let hexStr = trim (substring text (i + 2) closeIdx) in
                if 3 \<le> length hexStr \<and> length hexStr \<le> 8 \<and> list_all is_hex hexStr
                then (let c = parseColor (35 # hexStr)
                      in Some (l\<lparr>lp_parser := (lp_parser l)\<lparr>colorStack := push c (colorStack (lp_parser l))\<rparr>,
                                 lp_state := (lp_state l)\<lparr>color := c\<rparr>,
                                 pos := closeIdx + 1\<rparr>))
                else None
            | None \<Rightarrow> None)
      else None)"

definition step_color_close :: "jstring \<Rightarrow> ParseLoop \<Rightarrow> ParseLoop option" where
  "step_color_close text l =
     (let i = pos l in
      if i + 3 < length text \<and> text ! (i + 1) = 47 \<and> text ! (i + 2) = 35 \<and> text ! (i + 3) = 62
      then (let (c, s) = pop (colorStack (lp_parser l))
            in Some (l\<lparr>lp_parser := (lp_parser l)\<lparr>colorStack := s\<rparr>,
                       lp_state := (lp_state l)\<lparr>color := c\<rparr>,
                       pos := i + 4\<rparr>))
      else None)"

text \<open>The tags that \<open>parse\<close> handles itself, then the style presets, then the
  registry; \<open>None\<close> when the tag is none of them.\<close>

definition step_tag ::
    "TagRegistry \<Rightarrow> TMPStyleSheet option \<Rightarrow> num \<Rightarrow> TagParseResult \<Rightarrow> ParseLoop \<Rightarrow> ParseLoop option" where
  "step_tag reg sheet base tag l =
     (let i = pos l;
          lowerName = toLowerCase (tagName tag);
          opening = (\<not> isClosing tag);
          st = lp_state l;
          n = tag_length tag
      in
      if lowerName = str ''noparse'' \<and> opening then Some (l\<lparr>noparse := True, pos := i + n\<rparr>)
      else if lowerName = str ''br'' \<and> opening then Some (emit (createParsedChar [10] i st) n l)
      else if lowerName = str ''nbsp'' \<and> opening
        then Some (emit ((createParsedChar [160] i st)\<lparr>isNoBreak := True\<rparr>) n l)
      else if lowerName = str ''zwsp'' \<and> opening then Some (emit (createParsedChar [8203] i st) n l)
      else if (lowerName = str ''softhyphen'' \<or> lowerName = str ''shy'') \<and> opening
        then Some (emit (createParsedChar [173] i st) n l)
      else if lowerName = str ''en-space'' \<and> opening then Some (emit (createParsedChar [8194] i st) n l)
      else if lowerName = str ''em-space'' \<and> opening then Some (emit (createParsedChar [8195] i st) n l)
      else if lowerName = str ''cr'' \<and> opening then Some (emit (createParsedChar [13] i st) n l)
      else if lowerName = str ''zwj'' \<and> opening then Some (emit (createParsedChar [8205] i st) n l)
      else if lowerName = str ''space'' \<and> opening
        then Some (l\<lparr>pendingSpace := add_n (pendingSpace l) (parseUnit (tag_value tag) base),
                     pos := i + n\<rparr>)
      else if lowerName = str ''pos'' \<and> opening
        then Some (l\<lparr>pendingPos := parseUnit (tag_value tag) base, pos := i + n\<rparr>)
      else if lowerName = str ''sprite'' \<and> opening
        then (let spriteResult = parseSpriteTag (tag_value tag);
                  pc = (createParsedChar [65532] i st)
                         \<lparr>isSprite := True, spriteAsset := atlasName spriteResult,
                          spriteName := sr_spriteName spriteResult,
                          spriteIndex := sr_index spriteResult,
                          spriteTint := sr_tint spriteResult\<rparr>;
                  (pc', l') = apply_pending pc l
              in Some (emit pc' n l'))
      else if lowerName = str ''style'' \<and> sheet \<noteq> None
        then (if opening
              then (case sheet_get (the sheet) (tag_value tag) of
                      Some preset \<Rightarrow>
                        (let p1 = (lp_parser l)\<lparr>styleNameStack :=
                                     push (tag_value tag) (styleNameStack (lp_parser l))\<rparr>;
                             (st', p') = applyStylePresetOpen reg (preset_open preset) base 0 (st, p1)
                         in Some (l\<lparr>lp_parser := p', lp_state := st', pos := i + n\<rparr>))
                    | None \<Rightarrow> Some (l\<lparr>pos := i + n\<rparr>))
              else (let styleName = tcurrent (styleNameStack (lp_parser l));
                        p1 = (lp_parser l)\<lparr>styleNameStack := snd (pop (styleNameStack (lp_parser l)))\<rparr>
                    in case (if styleName \<noteq> [] then sheet_get (the sheet) styleName else None) of
                         Some preset \<Rightarrow>
                           (let (st', p') = applyStylePresetClose reg (preset_close preset) base 0 (st, p1)
                            in Some (l\<lparr>lp_parser := p', lp_state := st', pos := i + n\<rparr>))
                       | None \<Rightarrow> Some (l\<lparr>lp_parser := p1, pos := i + n\<rparr>)))
      else (case getByHash reg (tagNameHash tag) of
              Some entry \<Rightarrow>
                (let (st', p') = (if isClosing tag then onClose entry st (lp_parser l)
                                  else onOpen entry st (tag_value tag) base (lp_parser l))
                 in Some (l\<lparr>lp_parser := p', lp_state := st', pos := i + n\<rparr>))
            | None \<Rightarrow> None))"

text \<open>A \<open><\<close> met outside no-parse mode: a directive, or else a literal \<open><\<close>.\<close>

definition step_markup ::
    "TagRegistry \<Rightarrow> TMPStyleSheet option \<Rightarrow> jstring \<Rightarrow> num \<Rightarrow> ParseLoop \<Rightarrow> ParseLoop" where
  "step_markup reg sheet text base l =
     (case step_color_shorthand text l of
        Some l' \<Rightarrow> l'
      | None \<Rightarrow>
          (case step_color_close text l of
             Some l' \<Rightarrow> l'
           | None \<Rightarrow>
               (case (case tryParseTag text (pos l) of
                        Some tag \<Rightarrow> step_tag reg sheet base tag l
                      | None \<Rightarrow> None) of
                  Some l' \<Rightarrow> l'
                | None \<Rightarrow> emit (createParsedChar [60] (pos l) (lp_state l)) 1 l)))"

text \<open>\<open>toUpperCase\<close> on the ASCII letters.\<close>

definition upper_unit :: "nat \<Rightarrow> nat" where
  "upper_unit c = (if 97 \<le> c \<and> c \<le> 122 then c - 32 else c)"

definition toUpperCase :: "jstring \<Rightarrow> jstring" where
  "toUpperCase s = map upper_unit s"

text \<open>A regular character: pending space and position, then the case transforms.\<close>

definition step_char :: "nat \<Rightarrow> ParseLoop \<Rightarrow> ParseLoop" where
  "step_char ch l =
     (let st = lp_state l;
          (pc, l1) = apply_pending (createParsedChar [ch] (pos l) st) l;
          pc1 = (if isAllCaps st
                 then pc\<lparr>char := toUpperCase (char pc), charCode := codePointAt0 (toUpperCase (char pc))\<rparr>
                 else if isLowercase st
                 then pc\<lparr>char := toLowerCase (char pc), charCode := codePointAt0 (toLowerCase (char pc))\<rparr>
                 else if isSmallCaps st
                 then (let upper = toUpperCase (char pc)
                       in if char pc \<noteq> upper
                          then pc\<lparr>char := upper, charCode := codePointAt0 upper,
                                  fontSize := mul_n (fontSize pc) (Fin (8 / 10))\<rparr>
                          else pc)
                 else pc)
      in emit pc1 1 l1)"

text \<open>One round of the \<open>while\<close> loop, at \<open>i < text.length\<close>.\<close>

definition parse_step ::
    "TagRegistry \<Rightarrow> TMPStyleSheet option \<Rightarrow> jstring \<Rightarrow> num \<Rightarrow> ParseLoop \<Rightarrow> ParseLoop" where
  "parse_step reg sheet text base l =
     (let ch = text ! pos l in
      if ch = 60 \<and> noparse l then step_noparse text l
      else if ch = 60 then step_markup reg sheet text base l
      else if ch = 10
        then emit ((createParsedChar [10] (pos l) (lp_state l))\<lparr>isLineBreak := True\<rparr>) 1 l
      else if ch = 13 then l\<lparr>pos := pos l + 1\<rparr>
      else step_char ch l)"

text \<open>Every round of the loop moves the index forward.\<close>

lemma emit_pos [simp]: "pos (emit pc n l) = pos l + n"
  by (simp add: emit_def)

lemma apply_pending_pos [simp]: "pos (snd (apply_pending pc l)) = pos l"
  by (simp add: apply_pending_def Let_def split: prod.splits if_splits)

lemma indexOf_from_ge: "indexOf_from s c k = Some j \<Longrightarrow> k \<le> j"
  by (auto simp: indexOf_from_def)

definition pos_ok :: "nat \<Rightarrow> ParseLoop option \<Rightarrow> bool" where
  "pos_ok k x = (case x of None \<Rightarrow> True | Some l' \<Rightarrow> pos l' = k)"

lemma pos_ok_simps [simp]: "pos_ok k None" "pos_ok k (Some l') = (pos l' = k)"
  by (simp_all add: pos_ok_def)

lemma pos_ok_if: "pos_ok k (if c then a else b) = ((c \<longrightarrow> pos_ok k a) \<and> (\<not> c \<longrightarrow> pos_ok k b))"
  by simp

lemma pos_ok_case:
  "pos_ok k (case x of None \<Rightarrow> a | Some y \<Rightarrow> f y)
     = ((x = None \<longrightarrow> pos_ok k a) \<and> (\<forall>y. x = Some y \<longrightarrow> pos_ok k (f y)))"
  by (cases x) simp_all

lemma step_tag_pos_ok: "pos_ok (pos l + tag_length tag) (step_tag reg sheet base tag l)"
  unfolding step_tag_def Let_def split_beta
  apply (simp only: pos_ok_if pos_ok_case pos_ok_simps emit_pos apply_pending_pos)
  apply simp
  done

lemma step_tag_pos: "step_tag reg sheet base tag l = Some l' \<Longrightarrow> pos l' = pos l + tag_length tag"
  using step_tag_pos_ok [of l tag reg sheet base] by simp

lemma step_noparse_advances: "pos l < pos (step_noparse text l)"
  by (simp add: step_noparse_def Let_def)

lemma step_color_shorthand_advances: "step_color_shorthand text l = Some l' \<Longrightarrow> pos l < pos l'"
  by (auto simp: step_color_shorthand_def Let_def split: option.splits if_splits
      dest!: indexOf_from_ge)

lemma step_color_close_advances: "step_color_close text l = Some l' \<Longrightarrow> pos l < pos l'"
  by (auto simp: step_color_close_def Let_def split: option.splits if_splits prod.splits)

lemma step_markup_advances: "pos l < pos (step_markup reg sheet text base l)"
proof (cases "step_color_shorthand text l")
  case (Some l')
  then show ?thesis by (simp add: step_markup_def step_color_shorthand_advances)
next
  case None
  note sh = this
  show ?thesis
  proof (cases "step_color_close text l")
    case (Some l')
    with sh show ?thesis by (simp add: step_markup_def step_color_close_advances)
  next
    case None
    note cl = this
    show ?thesis
    proof (cases "tryParseTag text (pos l)")
      case None
      with sh cl show ?thesis by (simp add: step_markup_def)
    next
      case (Some tag)
      show ?thesis
      proof (cases "step_tag reg sheet base tag l")
        case None
        with sh cl Some show ?thesis by (simp add: step_markup_def)
      next
        case (Some l')
        from step_tag_pos [OF this] tryParseTag_length_pos [OF \<open>tryParseTag text (pos l) = Some tag\<close>]
        have "pos l < pos l'" by simp
        with sh cl Some \<open>tryParseTag text (pos l) = Some tag\<close> show ?thesis
          by (simp add: step_markup_def)
      qed
    qed
  qed
qed

lemma step_char_advances: "pos l < pos (step_char ch l)"
proof -
  have "pos (step_char ch l) = pos (snd (apply_pending (createParsedChar [ch] (pos l) (lp_state l)) l)) + 1"
    by (simp add: step_char_def Let_def split_beta)
  then show ?thesis by simp
qed

lemma parse_step_advances: "pos l < pos (parse_step reg sheet text base l)"
  by (simp add: parse_step_def Let_def step_noparse_advances step_markup_advances step_char_advances)

text \<open>The \<open>while (i < text.length)\<close> loop.\<close>

function parse_loop ::
    "TagRegistry \<Rightarrow> TMPStyleSheet option \<Rightarrow> jstring \<Rightarrow> num \<Rightarrow> ParseLoop \<Rightarrow> ParseLoop" where
  "parse_loop reg sheet text base l =
     (if pos l < length text
      then parse_loop reg sheet text base (parse_step reg sheet text base l)
      else l)"
  by pat_completeness auto
termination
  by (relation "measure (\<lambda>(reg, sheet, text, base, l). length text - pos l)")
    (auto intro: diff_less_mono2 parse_step_advances)

text \<open>
  \<open>parse(text, baseFontSize, baseColor, baseFontFamily)\<close> on a parser with the members
  \<open>p\<close>, the registry \<open>reg\<close> and the style sheet \<open>sheet\<close>: the array returned, and the
  members as the call leaves them.
\<close>

definition parse ::
    "TagRegistry \<Rightarrow> TMPStyleSheet option \<Rightarrow> Parser \<Rightarrow> jstring \<Rightarrow> num \<Rightarrow> num \<Rightarrow> jstring
       \<Rightarrow> ParsedChar list \<times> Parser" where
  "parse reg sheet p text baseFontSize baseColor baseFontFamily =
     (let l = parse_loop reg sheet text baseFontSize
                \<lparr>result = [],
                 lp_parser = reset_stacks baseFontSize baseColor baseFontFamily p,
                 lp_state = createDefaultStyleState baseFontSize baseColor baseFontFamily,
                 noparse = False, pendingSpace = Fin 0, pendingPos = NaN, pos = 0\<rparr>
      in (applyGradients (result l), lp_parser l))"

section \<open>Auxiliary definitions for the parser\<close>

definition erase_color :: "ParsedChar list \<Rightarrow> ParsedChar list" where
  "erase_color cs = map (\<lambda>p. p\<lparr>color := Number (Fin 0)\<rparr>) cs"

text \<open>The state in which \<open>parse\<close> enters its loop.\<close>

definition parse_start :: "Parser \<Rightarrow> num \<Rightarrow> num \<Rightarrow> jstring \<Rightarrow> ParseLoop" where
  "parse_start p baseFontSize baseColor baseFontFamily =
     \<lparr>result = [],
      lp_parser = reset_stacks baseFontSize baseColor baseFontFamily p,
      lp_state = createDefaultStyleState baseFontSize baseColor baseFontFamily,
      noparse = False, pendingSpace = Fin 0, pendingPos = NaN, pos = 0\<rparr>"








section \<open>Properties of the fallback lookup\<close>











lemma cyclic_env_eval:
  "getCharWithFallback cyclic_env 0 (str ''Z'') = Some (None, [0, 1])"
  by (simp add: getCharWithFallback_def cyclic_env_def registerFont_def getFont_def
      empty_font_def str_def toLowerCase_def lower_unit_def set_add_def)


section \<open>Properties of the gradient post-processor\<close>

subsection \<open>Rounding to a double\<close>

lemma pow2_powi: "pow2 k = 2 powi k"
  by (simp add: pow2_def power_int_def field_simps)

lemma pow2_pos [simp]: "0 < pow2 k"
  by (simp add: pow2_powi)

lemma pow2_add: "pow2 (a + b) = pow2 a * pow2 b"
  by (simp add: pow2_powi power_int_add)

lemma pow2_diff: "pow2 (a - b) = pow2 a / pow2 b"
  by (simp add: pow2_powi power_int_diff)

lemma pow2_mono: "a \<le> b \<Longrightarrow> pow2 a \<le> pow2 b"
  by (simp add: pow2_powi power_int_increasing)

lemma pow2_nat: "0 \<le> k \<Longrightarrow> pow2 k = 2 ^ nat k"
  by (simp add: pow2_def)

lemma bitlen_rat:
  assumes "0 < p"
  shows "pow2 (bitlen p - 1) \<le> of_int p" "of_int p < pow2 (bitlen p)"
proof -
  from bitlen_bounds [OF assms] have a: "2 ^ nat (bitlen p - 1) \<le> p" and b: "p < 2 ^ nat (bitlen p)"
    by simp_all
  have nn: "0 \<le> bitlen p - 1" using assms bitlen_nonneg [of p]
    by (smt (verit) b one_le_power power_0 zero_less_power nat_0_iff nat_le_0 power.simps(1))
  from a have "(of_int (2 ^ nat (bitlen p - 1)) :: rat) \<le> of_int p" by (rule of_int_le_iff [THEN iffD2])
  with nn show "pow2 (bitlen p - 1) \<le> of_int p" by (simp add: pow2_nat)
  from b have "(of_int p :: rat) < of_int (2 ^ nat (bitlen p))" by (rule of_int_less_iff [THEN iffD2])
  with nn show "of_int p < pow2 (bitlen p)" by (simp add: pow2_nat)
qed

lemma ilog2_bounds:
  assumes "0 < x"
  shows "pow2 (ilog2 x) \<le> x \<and> x < pow2 (ilog2 x + 1)"
proof -
  obtain p q where pq: "quotient_of x = (p, q)" by (cases "quotient_of x")
  then have q: "0 < q" and x: "x = of_int p / of_int q"
    by (simp_all add: quotient_of_denom_pos quotient_of_div)
  with assms have p: "0 < p" by (simp add: zero_less_divide_iff)
  let ?d = "bitlen p - bitlen q"
  note bp = bitlen_rat [OF p] and bq = bitlen_rat [OF q]
  have up: "x < pow2 (?d + 1)"
  proof -
    have "x < pow2 (bitlen p) / pow2 (bitlen q - 1)"
      unfolding x using bp bq q p
      by (intro frac_less) (simp_all add: less_imp_le)
    also have "\<dots> = pow2 (?d + 1)" by (simp add: pow2_diff [symmetric] algebra_simps)
    finally show ?thesis .
  qed
  have low: "pow2 (?d - 1) \<le> x"
  proof -
    have "pow2 (bitlen p - 1) / pow2 (bitlen q) \<le> x"
      unfolding x using bp bq q p
      by (intro frac_le) (simp_all add: less_imp_le)
    moreover have "pow2 (bitlen p - 1) / pow2 (bitlen q) = pow2 (?d - 1)"
      by (simp add: pow2_diff [symmetric] algebra_simps)
    ultimately show ?thesis by simp
  qed
  show ?thesis
  proof (cases "pow2 ?d \<le> x")
    case True
    with pq up show ?thesis by (simp add: ilog2_def)
  next
    case False
    with pq low show ?thesis by (simp add: ilog2_def)
  qed
qed

lemma round_even_error: "\<bar>of_int (round_even q) - q\<bar> \<le> 1 / 2"
proof -
  have "of_int \<lfloor>q\<rfloor> \<le> q" "q < of_int \<lfloor>q\<rfloor> + 1" by linarith+
  then show ?thesis
    unfolding round_even_def Let_def by (auto simp add: abs_le_iff)
qed

lemma round_even_of_int [simp]: "round_even (of_int n) = n"
  by (simp add: round_even_def)

lemma pow2_nonzero [simp]: "pow2 k \<noteq> 0"
  by (metis less_irrefl pow2_pos)

lemma pow2_nonneg [simp]: "0 \<le> pow2 k"
  by (rule less_imp_le) (rule pow2_pos)

lemma fl_zero [simp]: "fl 0 = 0"
  by (simp add: fl_def)

lemma fl_error: "\<bar>fl x - x\<bar> \<le> \<bar>x\<bar> / 2 ^ 53"
proof (cases "x = 0")
  case True
  then show ?thesis by simp
next
  case False
  let ?e = "ilog2 \<bar>x\<bar>"
  let ?u = "pow2 (?e - 52)"
  from False have "0 < \<bar>x\<bar>" by simp
  from ilog2_bounds [OF this] have lo: "pow2 ?e \<le> \<bar>x\<bar>" by simp
  have u: "?u = pow2 ?e / 2 ^ 52" by (simp add: pow2_diff pow2_nat)
  have "fl x - x = (of_int (round_even (x / ?u)) - x / ?u) * ?u"
    using False by (simp add: fl_def Let_def algebra_simps)
  then have "\<bar>fl x - x\<bar> = \<bar>of_int (round_even (x / ?u)) - x / ?u\<bar> * ?u"
    by (simp add: abs_mult abs_of_pos)
  also have "\<dots> \<le> (1 / 2) * ?u"
    by (intro mult_right_mono round_even_error) simp
  also have "\<dots> = pow2 ?e / 2 ^ 53" by (simp add: u)
  also have "\<dots> \<le> \<bar>x\<bar> / 2 ^ 53" using lo by (simp add: divide_right_mono)
  finally show ?thesis .
qed

lemma fl_of_int:
  assumes "\<bar>n\<bar> < 2 ^ 53"
  shows "fl (of_int n) = of_int n"
proof (cases "n = 0")
  case True
  then show ?thesis by simp
next
  case False
  let ?x = "of_int n :: rat"
  let ?e = "ilog2 \<bar>?x\<bar>"
  from False have "0 < \<bar>?x\<bar>" by simp
  from ilog2_bounds [OF this] have lo: "pow2 ?e \<le> \<bar>?x\<bar>" by simp
  have "\<bar>?x\<bar> < 2 ^ 53" using assms
    by (metis of_int_abs of_int_less_numeral_power_cancel_iff)
  with lo have "pow2 ?e < pow2 53" by (simp add: pow2_nat)
  then have e: "?e \<le> 52"
    using pow2_mono [of 53 ?e] by (cases "?e \<le> 52") (simp_all add: not_le)
  define k where "k = nat (52 - ?e)"
  have u: "pow2 (?e - 52) = 1 / 2 ^ k"
    using e by (simp add: pow2_def k_def)
  have "?x / pow2 (?e - 52) = of_int (n * 2 ^ k)" by (simp add: u)
  then have "round_even (?x / pow2 (?e - 52)) = n * 2 ^ k"
    by (simp only: round_even_of_int)
  with False show ?thesis by (simp add: fl_def Let_def u)
qed

lemma fl_error_bound: "\<bar>x\<bar> \<le> B \<Longrightarrow> \<bar>fl x - x\<bar> \<le> B / 9007199254740992"
proof -
  assume "\<bar>x\<bar> \<le> B"
  then have "\<bar>x\<bar> / 2 ^ 53 \<le> B / 2 ^ 53" by (rule divide_right_mono) simp
  with fl_error [of x] have "\<bar>fl x - x\<bar> \<le> B / 2 ^ 53" by (rule order_trans)
  then show ?thesis by simp
qed

text \<open>The double-precision value of \<open>a + (b - a) * t\<close> for two channel values and a factor
  near the unit interval is within \<open>2^-43\<close> of the exact value.\<close>

lemma mix_error:
  fixes a b :: int and q t :: rat
  assumes a: "0 \<le> a" "a \<le> 255" and b: "0 \<le> b" "b \<le> 255"
    and t: "0 \<le> t" "t \<le> 1" and q: "\<bar>q - t\<bar> \<le> 1 / 2 ^ 53"
  shows "\<bar>fl (of_int a + fl (of_int (b - a) * q)) - (of_int a + of_int (b - a) * t)\<bar> \<le> 1 / 2 ^ 43"
proof -
  define d :: rat where "d = of_int (b - a)"
  define p where "p = d * q"
  define fp where "fp = fl p"
  define s0 where "s0 = of_int a + fp"
  define x where "x = d * t"
  have q': "\<bar>q - t\<bar> \<le> 1 / 9007199254740992" using q by simp
  have d: "\<bar>d\<bar> \<le> 255" using a b by (simp add: d_def abs_le_iff)
  have qb: "\<bar>q\<bar> \<le> 256 / 255" using t q' by linarith
  have "\<bar>p\<bar> = \<bar>d\<bar> * \<bar>q\<bar>" by (simp add: p_def abs_mult)
  also have "\<dots> \<le> 255 * (256 / 255)" using d qb by (intro mult_mono) simp_all
  finally have pb: "\<bar>p\<bar> \<le> 256" by simp
  from fl_error_bound [OF pb] have e1: "\<bar>fp - p\<bar> \<le> 256 / 9007199254740992"
    by (simp add: fp_def)
  have "\<bar>p - x\<bar> = \<bar>d\<bar> * \<bar>q - t\<bar>"
    by (simp add: p_def x_def abs_mult [symmetric] algebra_simps)
  also have "\<dots> \<le> 255 * (1 / 9007199254740992)"
    using d q' by (intro mult_mono) simp_all
  finally have e2: "\<bar>p - x\<bar> \<le> 255 / 9007199254740992" by simp
  have ar: "0 \<le> (of_int a :: rat)" "(of_int a :: rat) \<le> 255" using a by simp_all
  have sb: "\<bar>s0\<bar> \<le> 512" unfolding s0_def using ar pb e1 by linarith
  from fl_error_bound [OF sb] have e3: "\<bar>fl s0 - s0\<bar> \<le> 512 / 9007199254740992" .
  have "\<bar>fl s0 - (of_int a + x)\<bar> \<le> 1 / 8796093022208"
    using e1 e2 e3 unfolding s0_def by linarith
  then show ?thesis by (simp add: s0_def fp_def p_def x_def d_def)
qed

lemma mix_channel:
  fixes a b :: int and q t :: rat
  assumes a: "0 \<le> a" "a \<le> 255" and b: "0 \<le> b" "b \<le> 255"
    and t: "0 \<le> t" "t \<le> 1" and q: "\<bar>q - t\<bar> \<le> 1 / 2 ^ 53"
  defines "v \<equiv> \<lfloor>fl (of_int a + fl (of_int (b - a) * q)) + 1 / 2\<rfloor>"
  shows "0 \<le> v" "v \<le> 255"
    "\<bar>of_int v - (of_int a + of_int (b - a) * t)\<bar> \<le> 1 / 2 + 1 / 2 ^ 43"
proof -
  define s where "s = fl (of_int a + fl (of_int (b - a) * q))"
  define x :: rat where "x = of_int a + of_int (b - a) * t"
  from mix_error [OF a b t q] have "\<bar>s - x\<bar> \<le> 1 / 8796093022208"
    by (simp add: s_def x_def)
  then have e: "x - 1 / 8796093022208 \<le> s" "s \<le> x + 1 / 8796093022208"
    by (simp_all only: abs_le_iff) linarith+
  have xc: "x = (1 - t) * of_int a + t * of_int b" by (simp add: x_def algebra_simps)
  have x0: "0 \<le> x"
    unfolding xc using a b t by (intro add_nonneg_nonneg mult_nonneg_nonneg) simp_all
  have "(1 - t) * of_int a \<le> (1 - t) * 255" "t * of_int b \<le> t * 255"
    using a b t by (intro mult_left_mono; simp)+
  then have x1: "x \<le> 255" unfolding xc by (simp add: algebra_simps)
  have v: "of_int v \<le> s + 1 / 2" "s + 1 / 2 < of_int v + 1"
    unfolding v_def s_def by linarith+
  from e x0 v have "- 1 < (of_int v :: rat)" by linarith
  then have "of_int (- 1) < (of_int v :: rat)" by simp
  then have "- 1 < v" by (simp only: of_int_less_iff)
  then show "0 \<le> v" by simp
  from e x1 v have "(of_int v :: rat) < 256" by linarith
  then have "(of_int v :: rat) < of_int 256" by simp
  then have "v < 256" by (simp only: of_int_less_iff)
  then show "v \<le> 255" by simp
  from e v have "\<bar>of_int v - x\<bar> \<le> 1 / 2 + 1 / 8796093022208" by linarith
  then show "\<bar>of_int v - (of_int a + of_int (b - a) * t)\<bar> \<le> 1 / 2 + 1 / 2 ^ 43"
    by (simp add: x_def)
qed

subsection \<open>Colours and channels\<close>

lemma and_255: "and (x::int) 255 = take_bit 8 x"
proof -
  have "(255::int) = mask 8" by (simp add: mask_eq_exp_minus_1)
  then show ?thesis by (simp add: take_bit_eq_mask)
qed

lemma recombine_rgb:
  assumes "0 \<le> k" "k < 2 ^ 24"
  shows "or (or (push_bit 16 (take_bit 8 (drop_bit 16 k))) (push_bit 8 (take_bit 8 (drop_bit 8 k))))
            (take_bit 8 k) = (k::int)"
proof -
  have "take_bit 24 k = k" using assms by (simp add: take_bit_int_eq_self)
  moreover have "or (or (push_bit 16 (take_bit 8 (drop_bit 16 k))) (push_bit 8 (take_bit 8 (drop_bit 8 k))))
            (take_bit 8 k) = take_bit 24 k"
  proof (rule bit_eqI)
    fix n :: nat
    consider "n < 8" | "8 \<le> n" "n < 16" | "16 \<le> n" by linarith
    then show "bit (or (or (push_bit 16 (take_bit 8 (drop_bit 16 k))) (push_bit 8 (take_bit 8 (drop_bit 8 k))))
            (take_bit 8 k)) n = bit (take_bit 24 k) n"
      by cases (auto simp: bit_simps)
  qed
  ultimately show ?thesis by simp
qed

lemma nonneg_ge_min32: "0 \<le> (y::int) \<Longrightarrow> - (2 ^ 31) \<le> y"
  by simp

lemma to_int32_range: "- (2 ^ 31) \<le> to_int32 x" "to_int32 x < 2 ^ 31"
proof -
  show "- (2 ^ 31) \<le> to_int32 x"
    using signed_take_bit_int_greater_eq_minus_exp [of 31] by (cases x) simp_all
  show "to_int32 x < 2 ^ 31"
    using signed_take_bit_int_less_exp [of 31] by (cases x) simp_all
qed

lemma to_int32_of_int: "- (2 ^ 31) \<le> k \<Longrightarrow> k < 2 ^ 31 \<Longrightarrow> to_int32 (Fin (of_int k)) = k"
  by (simp add: signed_take_bit_int_eq_self)

lemma take_bit8_bounds: "0 \<le> take_bit 8 (x::int)" "take_bit 8 (x::int) < 256"
  using take_bit_int_less_exp [of 8 x] by simp_all

lemma channel_to_int32: "to_int32 (Fin (of_int (take_bit 8 (x::int)))) = take_bit 8 x"
proof (rule to_int32_of_int)
  show "- (2 ^ 31) \<le> take_bit 8 x" by (rule nonneg_ge_min32) simp
  show "take_bit 8 x < 2 ^ 31" using take_bit8_bounds(2) [of x] by simp
qed

lemma floor_half: "\<lfloor>(of_int k :: rat) + 1 / 2\<rfloor> = k"
  by linarith

lemma shl16_channel: "signed_take_bit 31 (push_bit 16 (take_bit 8 (x::int))) = push_bit 16 (take_bit 8 x)"
proof (rule signed_take_bit_int_eq_self)
  show "- (2 ^ 31) \<le> push_bit 16 (take_bit 8 x)"
    by (rule nonneg_ge_min32) simp
  show "push_bit 16 (take_bit 8 x) < 2 ^ 31"
    using take_bit8_bounds(2) [of x] by (simp add: push_bit_eq_mult)
qed

lemma shl8_channel: "signed_take_bit 31 (push_bit 8 (take_bit 8 (x::int))) = push_bit 8 (take_bit 8 x)"
proof (rule signed_take_bit_int_eq_self)
  show "- (2 ^ 31) \<le> push_bit 8 (take_bit 8 x)"
    by (rule nonneg_ge_min32) simp
  show "push_bit 8 (take_bit 8 x) < 2 ^ 31"
    using take_bit8_bounds(2) [of x] by (simp add: push_bit_eq_mult)
qed

lemma to_int32_sar: "to_int32 (sar_n x k) = drop_bit k (to_int32 x)"
proof -
  have "- (2 ^ 31) \<le> to_int32 x div 2 ^ k"
    using to_int32_range(1) [of x]
    by (smt (verit) div_by_1 zdiv_mono2_neg pos_imp_zdiv_nonneg_iff one_le_power zero_less_power)
  moreover have "to_int32 x div 2 ^ k < 2 ^ 31"
    using to_int32_range(2) [of x]
    by (smt (verit) div_by_1 zdiv_mono2 pos_imp_zdiv_neg_iff one_le_power zero_less_power)
  ultimately show ?thesis
    by (simp add: sar_n_def int_n_def drop_bit_eq_div signed_take_bit_int_eq_self)
qed

lemma and_n_255: "and_n x (Fin 255) = Fin (of_int (take_bit 8 (to_int32 x)))"
  by (simp add: and_n_def int_n_def and_255 signed_take_bit_int_eq_self)

lemma pack_rgb:
  "or_bits_n (or_bits_n (shl_n (Fin (of_int (take_bit 8 x))) 16) (shl_n (Fin (of_int (take_bit 8 y))) 8))
       (Fin (of_int (take_bit 8 z)))
   = int_n (or (or (push_bit 16 (take_bit 8 x)) (push_bit 8 (take_bit 8 y))) (take_bit 8 z))"
proof -
  let ?X = "push_bit 16 (take_bit 8 x) :: int" and ?Y = "push_bit 8 (take_bit 8 y) :: int"
  have X: "0 \<le> ?X" "?X < 2 ^ 31" and Y: "0 \<le> ?Y" "?Y < 2 ^ 31"
    using take_bit8_bounds(2) [of x] take_bit8_bounds(2) [of y] by (simp_all add: push_bit_eq_mult)
  have "or ?X ?Y < 2 ^ 31" using X Y by (intro OR_upper)
  moreover have "0 \<le> or ?X ?Y" by simp
  ultimately have "to_int32 (Fin (of_int (or ?X ?Y))) = or ?X ?Y"
    by (intro to_int32_of_int nonneg_ge_min32)
  moreover have "to_int32 (Fin (of_int ?X)) = ?X" "to_int32 (Fin (of_int ?Y)) = ?Y"
    using X Y by (intro to_int32_of_int nonneg_ge_min32; simp)+
  ultimately show ?thesis
    by (simp only: or_bits_n_def shl_n_def int_n_def channel_to_int32 shl16_channel shl8_channel)
qed

lemma round_n_of_int: "round_n (Fin (of_int k)) = Fin (of_int k)"
  by (simp add: floor_half)

lemma eq_v_eq: "eq_v a b \<Longrightarrow> a = b \<and> b \<noteq> Number NaN"
  by (cases a; cases b) (auto simp: eq_n_def)

lemma eq_v_refl: "a \<noteq> Number NaN \<Longrightarrow> eq_v a a"
  by (cases a) (simp_all add: eq_n_def)

lemma is_rgbE:
  assumes "is_rgb c"
  obtains k where "c = Number (Fin (of_int k))" "0 \<le> k" "k < 2 ^ 24"
proof -
  from assms obtain q where c: "c = Number (Fin q)"
    by (cases c rule: is_rgb.cases) simp_all
  with assms have q: "q = of_int \<lfloor>q\<rfloor>" "0 \<le> q" "q < 2 ^ 24" by simp_all
  then have "0 \<le> \<lfloor>q\<rfloor>" "\<lfloor>q\<rfloor> < 2 ^ 24" by (simp_all add: floor_less_iff)
  with c q(1) that show ?thesis by blast
qed

lemma to_int32_rgb: "0 \<le> k \<Longrightarrow> k < 2 ^ 24 \<Longrightarrow> to_int32 (Fin (of_int k)) = k"
  by (rule to_int32_of_int) simp_all

lemma channel_bounds: "0 \<le> channel sh c" "channel sh c \<le> 255"
  using take_bit8_bounds [of "drop_bit sh (to_int32 (to_number c))"] by (simp_all add: channel_def)

lemma channel_and:
  "and_n (sar_n (to_number c) sh) (Fin 255) = Fin (of_int (channel sh c))"
  "and_n (to_number c) (Fin 255) = Fin (of_int (channel 0 c))"
  by (simp_all add: and_n_255 to_int32_sar channel_def)

lemma take_bit8_id: "0 \<le> v \<Longrightarrow> v \<le> 255 \<Longrightarrow> take_bit 8 v = (v::int)"
  by (simp add: take_bit_int_eq_self)

lemma unpack_rgb:
  fixes r g b :: int
  defines "n \<equiv> or (or (push_bit 16 (take_bit 8 r)) (push_bit 8 (take_bit 8 g))) (take_bit 8 b)"
  shows "take_bit 8 (drop_bit 16 n) = take_bit 8 r" "take_bit 8 (drop_bit 8 n) = take_bit 8 g"
    "take_bit 8 (drop_bit 0 n) = take_bit 8 b" "0 \<le> n" "n < 2 ^ 24"
proof -
  show "take_bit 8 (drop_bit 16 n) = take_bit 8 r"
    unfolding n_def by (rule bit_eqI) (auto simp: bit_simps)
  show "take_bit 8 (drop_bit 8 n) = take_bit 8 g"
    unfolding n_def by (rule bit_eqI) (auto simp: bit_simps)
  show "take_bit 8 (drop_bit 0 n) = take_bit 8 b"
    unfolding n_def by (rule bit_eqI) (auto simp: bit_simps)
  show "0 \<le> n" unfolding n_def by simp
  have "take_bit 24 n = n"
    unfolding n_def by (rule bit_eqI) (auto simp: bit_simps)
  then show "n < 2 ^ 24" using take_bit_int_less_exp [of 24 n] by simp
qed

text \<open>The colour that \<open>lerpColor\<close> returns for a factor \<open>q\<close> within \<open>2^-53\<close> of the unit
  interval: the three rounded channel values, packed.\<close>

lemma lerpColor_channels:
  fixes a b :: jsval and q t :: rat
  assumes t: "0 \<le> t" "t \<le> 1" and q: "\<bar>q - t\<bar> \<le> 1 / 2 ^ 53"
  defines "v \<equiv> \<lambda>sh. \<lfloor>fl (of_int (channel sh a) + fl (of_int (channel sh b - channel sh a) * q)) + 1 / 2\<rfloor>"
  shows "lerpColor a b (Fin q)
           = int_n (or (or (push_bit 16 (take_bit 8 (v 16))) (push_bit 8 (take_bit 8 (v 8))))
                    (take_bit 8 (v 0)))"
    and "\<And>sh. take_bit 8 (v sh) = v sh"
    and "\<And>sh. \<bar>of_int (v sh) - lerp_exact sh a b t\<bar> \<le> 1 / 2 + 1 / 2 ^ 43"
proof -
  have range: "0 \<le> v sh" "v sh \<le> 255" for sh
    unfolding v_def using mix_channel [OF channel_bounds channel_bounds t q] by simp_all
  then show tb: "\<And>sh. take_bit 8 (v sh) = v sh" by (simp add: take_bit8_id)
  show "\<And>sh. \<bar>of_int (v sh) - lerp_exact sh a b t\<bar> \<le> 1 / 2 + 1 / 2 ^ 43"
    unfolding v_def lerp_exact_def using mix_channel(3) [OF channel_bounds channel_bounds t q] by simp
  have r: "round_n (fl_n (add_n (Fin (of_int x)) (fl_n (mul_n (sub_n (Fin (of_int y)) (Fin (of_int x))) (Fin q)))))
           = Fin (of_int \<lfloor>fl (of_int x + fl (of_int (y - x) * q)) + 1 / 2\<rfloor>)" for x y :: int
    by (simp add: sub_n_def)
  have "lerpColor a b (Fin q)
        = or_bits_n (or_bits_n (shl_n (Fin (of_int (v 16))) 16) (shl_n (Fin (of_int (v 8))) 8))
            (Fin (of_int (v 0)))"
    unfolding lerpColor_def Let_def channel_and r v_def ..
  also have "\<dots> = or_bits_n (or_bits_n (shl_n (Fin (of_int (take_bit 8 (v 16)))) 16)
                        (shl_n (Fin (of_int (take_bit 8 (v 8)))) 8))
                      (Fin (of_int (take_bit 8 (v 0))))"
    by (simp only: tb)
  also have "\<dots> = int_n (or (or (push_bit 16 (take_bit 8 (v 16))) (push_bit 8 (take_bit 8 (v 8))))
                    (take_bit 8 (v 0)))"
    by (rule pack_rgb)
  finally show "lerpColor a b (Fin q)
           = int_n (or (or (push_bit 16 (take_bit 8 (v 16))) (push_bit 8 (take_bit 8 (v 8))))
                    (take_bit 8 (v 0)))" .
qed

lemma channel_rgb:
  assumes "0 \<le> k" "k < 2 ^ 24"
  shows "or (or (push_bit 16 (take_bit 8 (channel 16 (Number (Fin (of_int k))))))
               (push_bit 8 (take_bit 8 (channel 8 (Number (Fin (of_int k)))))))
            (take_bit 8 (channel 0 (Number (Fin (of_int k))))) = k"
  using recombine_rgb [OF assms] to_int32_rgb [OF assms]
  by (simp add: channel_def del: to_int32.simps)

lemma fl_channel [simp]: "fl (of_int (channel sh c)) = of_int (channel sh c)"
  using channel_bounds [of sh c] by (intro fl_of_int) simp

lemma fl_channel_diff [simp]:
  "fl (of_int (channel sh b - channel sh a)) = of_int (channel sh b - channel sh a)"
  using channel_bounds [of sh a] channel_bounds [of sh b] by (intro fl_of_int) simp

lemma lerpColor_start:
  assumes "is_rgb a"
  shows "lerpColor a b (Fin 0) = to_number a"
proof -
  from assms obtain k where a: "a = Number (Fin (of_int k))" and k: "0 \<le> k" "k < 2 ^ 24"
    by (rule is_rgbE)
  have "\<lfloor>fl (of_int (channel sh a) + fl (of_int (channel sh b - channel sh a) * 0)) + 1 / 2\<rfloor>
        = channel sh a" for sh
    by (simp add: floor_half)
  with lerpColor_channels(1) [of 0 0 a b]
  have "lerpColor a b (Fin 0)
        = int_n (or (or (push_bit 16 (take_bit 8 (channel 16 a))) (push_bit 8 (take_bit 8 (channel 8 a))))
                    (take_bit 8 (channel 0 a)))"
    by simp
  with channel_rgb [OF k] a show ?thesis by (simp add: int_n_def)
qed

lemma lerpColor_end:
  assumes "is_rgb b"
  shows "lerpColor a b (Fin 1) = to_number b"
proof -
  from assms obtain k where b: "b = Number (Fin (of_int k))" and k: "0 \<le> k" "k < 2 ^ 24"
    by (rule is_rgbE)
  have "of_int (channel sh a) + (of_int (channel sh b - channel sh a) :: rat) = of_int (channel sh b)"
    for sh by simp
  then have "\<lfloor>fl (of_int (channel sh a) + fl (of_int (channel sh b - channel sh a) * 1)) + 1 / 2\<rfloor>
        = channel sh b" for sh
    by (simp only: mult_1_right fl_channel_diff fl_channel floor_half)
  with lerpColor_channels(1) [of 1 1 a b]
  have "lerpColor a b (Fin 1)
        = int_n (or (or (push_bit 16 (take_bit 8 (channel 16 b))) (push_bit 8 (take_bit 8 (channel 8 b))))
                    (take_bit 8 (channel 0 b)))"
    by simp
  with channel_rgb [OF k] b show ?thesis by (simp add: int_n_def)
qed

lemma set_color_length [simp]: "length (set_color i c cs) = length cs"
  by (simp add: set_color_def)

lemma set_color_nth_other: "k \<noteq> i \<Longrightarrow> set_color i c cs ! k = cs ! k"
  by (simp add: set_color_def)

lemma set_color_nth_color: "i < length cs \<Longrightarrow> color (set_color i c cs ! i) = c"
  by (simp add: set_color_def)

lemma set_color_gradientColors:
  "k < length cs \<Longrightarrow> gradientColors (set_color i c cs ! k) = gradientColors (cs ! k)"
  by (cases "k = i") (simp_all add: set_color_def)

lemma fold_set_color_length [simp]:
  "length (fold (\<lambda>i. set_color (nat i) (f i)) js cs) = length cs"
  by (induction js arbitrary: cs) simp_all

lemma fold_set_color_gradientColors:
  "k < length cs \<Longrightarrow>
   gradientColors (fold (\<lambda>i. set_color (nat i) (f i)) js cs ! k) = gradientColors (cs ! k)"
  by (induction js arbitrary: cs) (simp_all add: set_color_gradientColors)

lemma fold_set_color_other:
  "\<forall>i \<in> set js. nat i \<noteq> k \<Longrightarrow> fold (\<lambda>i. set_color (nat i) (f i)) js cs ! k = cs ! k"
  by (induction js arbitrary: cs) (simp_all add: set_color_nth_other)

lemma fold_set_color_hit:
  "distinct (map nat js) \<Longrightarrow> i \<in> set js \<Longrightarrow> nat i < length cs \<Longrightarrow>
   color (fold (\<lambda>i. set_color (nat i) (f i)) js cs ! nat i) = f i"
proof (induction js arbitrary: cs)
  case Nil
  then show ?case by simp
next
  case (Cons j js)
  show ?case
  proof (cases "i = j")
    case True
    from Cons.prems(1) have "nat j \<notin> nat ` set js" by simp
    then have "\<forall>i' \<in> set js. nat i' \<noteq> nat j" by (metis imageI)
    from fold_set_color_other [OF this] True Cons.prems(3) show ?thesis
      by (simp add: set_color_nth_color)
  next
    case False
    with Cons.prems have "i \<in> set js" "distinct (map nat js)" by simp_all
    from Cons.IH [OF this(2) this(1), of "set_color (nat j) (f j) cs"] Cons.prems(3)
    show ?thesis by simp
  qed
qed

lemma distinct_map_nat_upto: "0 \<le> a \<Longrightarrow> distinct (map nat [a..b])"
  by (auto simp: distinct_map inj_on_def)

lemma interpolateRegion_length [simp]: "length (interpolateRegion cs a b g) = length cs"
  by (simp add: interpolateRegion_def Let_def)

lemma interpolateRegion_gradientColors:
  "k < length cs \<Longrightarrow> gradientColors (interpolateRegion cs a b g ! k) = gradientColors (cs ! k)"
  by (simp add: interpolateRegion_def Let_def set_color_gradientColors fold_set_color_gradientColors)

lemma interpolateRegion_other:
  assumes "0 \<le> a" "a \<le> b" "int k < a \<or> b < int k"
  shows "interpolateRegion cs a b g ! k = cs ! k"
proof (cases "b - a \<le> 0")
  case True
  with assms have "k \<noteq> nat a" by linarith
  with True show ?thesis by (simp add: interpolateRegion_def set_color_nth_other)
next
  case False
  have "\<forall>i \<in> set [a..b]. nat i \<noteq> k"
  proof
    fix i assume "i \<in> set [a..b]"
    then have "a \<le> i" "i \<le> b" by simp_all
    with assms show "nat i \<noteq> k" by linarith
  qed
  from fold_set_color_other [OF this] False show ?thesis
    by (simp add: interpolateRegion_def Let_def)
qed

lemma interpolateRegion_color:
  assumes "s \<le> e" "e < length cs" "s \<le> k" "k \<le> e"
  shows "color (interpolateRegion cs (int s) (int e) g ! k) = run_color (g ! 0) (g ! 1) s e k"
proof (cases "e = s")
  case True
  with assms show ?thesis
    by (simp add: interpolateRegion_def run_color_def set_color_nth_color)
next
  case False
  with assms have pos: "\<not> int e - int s \<le> 0" by simp
  have d: "distinct (map nat [int s..int e])" by (rule distinct_map_nat_upto) simp
  have m: "int k \<in> set [int s..int e]" using assms by simp
  have l: "nat (int k) < length cs" using assms by simp
  have "color (interpolateRegion cs (int s) (int e) g ! nat (int k))
        = Number (lerpColor (g ! 0) (g ! 1)
                    (fl_n (div_n (int_n (int k - int s)) (int_n (int e - int s)))))"
    unfolding interpolateRegion_def Let_def using pos
    by (simp only: if_False fold_set_color_hit [OF d m l])
  moreover have "fl_n (div_n (int_n (int k - int s)) (int_n (int e - int s)))
                 = Fin (fl (of_nat (k - s) / of_nat (e - s)))"
    using assms False by (simp add: int_n_def of_nat_diff)
  ultimately show ?thesis using False by (simp add: run_color_def)
qed

text \<open>The three ways a step of the loop can go.\<close>

lemma applyGradients_step_close:
  assumes "0 \<le> gradStart st" "\<not> same_grad st i"
  shows "applyGradients_step i st =
           (if 2 \<le> length (gc_at st i)
            then st\<lparr>gchars := interpolateRegion (gchars st) (gradStart st) (int i - 1) (gradColors st),
                    gradStart := int i, gradColors := gc_at st i\<rparr>
            else st\<lparr>gchars := interpolateRegion (gchars st) (gradStart st) (int i - 1) (gradColors st),
                    gradStart := - 1\<rparr>)"
  using assms unfolding applyGradients_step_def same_grad_def gc_at_def Let_def by simp

lemma applyGradients_step_continue:
  assumes "0 \<le> gradStart st" "same_grad st i"
  shows "applyGradients_step i st = st"
  using assms unfolding applyGradients_step_def same_grad_def gc_at_def Let_def by simp

lemma applyGradients_step_idle:
  assumes "gradStart st < 0"
  shows "applyGradients_step i st =
           (if 2 \<le> length (gc_at st i) then st\<lparr>gradStart := int i, gradColors := gc_at st i\<rparr> else st)"
  using assms unfolding applyGradients_step_def same_grad_def gc_at_def Let_def by simp

lemma grad_inv_step:
  assumes run: "maximal_run cs s e c0 c1"
    and inv: "grad_inv cs s e c0 c1 i st"
    and i: "i \<le> length cs"
  shows "grad_inv cs s e c0 c1 (Suc i) (applyGradients_step i st)"
proof -
  let ?n = "length cs"
  let ?gc = "gc_at st i"
  let ?interp = "interpolateRegion (gchars st) (gradStart st) (int i - 1) (gradColors st)"
  from run have se: "s \<le> e" "e < ?n"
    and ends: "\<And>k. s \<le> k \<Longrightarrow> k \<le> e \<Longrightarrow> has_endpoints (cs ! k) c0 c1"
    and left: "s = 0 \<or> \<not> has_endpoints (cs ! (s - 1)) c0 c1"
    and right: "e + 1 = ?n \<or> \<not> has_endpoints (cs ! (e + 1)) c0 c1"
    by (simp_all add: maximal_run_def)
  from inv have len: "length (gchars st) = ?n"
    and gcs: "\<And>k. k < ?n \<Longrightarrow> gradientColors (gchars st ! k) = gradientColors (cs ! k)"
    and open_run: "0 \<le> gradStart st \<Longrightarrow>
            0 < i \<and> gradStart st < int i \<and> 2 \<le> length (gradColors st)
            \<and> 2 \<le> length (gradientColors (cs ! (i - 1)))
            \<and> gradientColors (cs ! (i - 1)) ! 0 = gradColors st ! 0
            \<and> gradientColors (cs ! (i - 1)) ! 1 = gradColors st ! 1"
    and inside: "s < i \<Longrightarrow> i \<le> e + 1 \<Longrightarrow>
            gradStart st = int s \<and> gradColors st ! 0 = c0 \<and> gradColors st ! 1 = c1"
    and after: "e + 1 < i \<Longrightarrow> (gradStart st < 0 \<or> int e < gradStart st)
            \<and> (\<forall>k. s \<le> k \<and> k \<le> e \<longrightarrow> color (gchars st ! k) = run_color c0 c1 s e k)"
    by (simp_all add: grad_inv_def)
  have gc: "?gc = (if i < ?n then gradientColors (cs ! i) else [])"
    by (simp add: gc_at_def len gcs)
  have c_ok: "c0 \<noteq> Number NaN" "c1 \<noteq> Number NaN"
    using ends [of s] se by (auto simp: has_endpoints_def dest: eq_v_eq)
  have same_iff: "same_grad st i \<longleftrightarrow> i < ?n \<and> has_endpoints (cs ! i) c0 c1"
    if "2 \<le> length (gradColors st)" "gradColors st ! 0 = c0" "gradColors st ! 1 = c1"
    using that by (auto simp: same_grad_def gc has_endpoints_def split: if_splits)
  have ilen: "length ?interp = ?n" by (simp add: len)
  have igc: "\<And>k. k < ?n \<Longrightarrow> gradientColors (?interp ! k) = gradientColors (cs ! k)"
    by (simp add: interpolateRegion_gradientColors len gcs)
  text \<open>At the first index of the run a region starts, whatever was open before.\<close>
  have at_s: "\<not> (0 \<le> gradStart st \<and> same_grad st i)" if "i = s"
  proof
    assume a: "0 \<le> gradStart st \<and> same_grad st i"
    with open_run have o: "0 < i" "2 \<le> length (gradientColors (cs ! (i - 1)))"
      "gradientColors (cs ! (i - 1)) ! 0 = gradColors st ! 0"
      "gradientColors (cs ! (i - 1)) ! 1 = gradColors st ! 1" by simp_all
    from ends [of s] se have "has_endpoints (cs ! s) c0 c1" by simp
    moreover have "gc_at st s = gradientColors (cs ! s)" using gc that se by simp
    ultimately have "gradColors st ! 0 = c0" "gradColors st ! 1 = c1"
      using a that by (auto simp: same_grad_def has_endpoints_def dest!: eq_v_eq)
    with o c_ok have "has_endpoints (cs ! (s - 1)) c0 c1"
      using that by (simp add: has_endpoints_def eq_v_refl)
    with left o(1) that show False by simp
  qed
  consider (close) "0 \<le> gradStart st" "\<not> same_grad st i"
    | (continue) "0 \<le> gradStart st" "same_grad st i"
    | (idle) "gradStart st < 0" by linarith
  then show ?thesis
  proof cases
    case close
    note step = applyGradients_step_close [OF close]
    from open_run [OF close(1)] have o: "0 < i" "gradStart st < int i" by simp_all
    have not_run: "\<not> (s < i \<and> i \<le> e)"
    proof
      assume a: "s < i \<and> i \<le> e"
      with inside have g: "gradColors st ! 0 = c0" "gradColors st ! 1 = c1" by simp_all
      from open_run [OF close(1)] have "2 \<le> length (gradColors st)" by simp
      from same_iff [OF this g] close(2) a se ends [of i] show False by simp
    qed
    have colors: "color (?interp ! k) = run_color c0 c1 s e k"
      if k: "s \<le> k" "k \<le> e" and ie: "e + 1 \<le> i" for k
    proof (cases "i = e + 1")
      case True
      with inside se have g: "gradStart st = int s" "gradColors st ! 0 = c0" "gradColors st ! 1 = c1"
        by simp_all
      from interpolateRegion_color [of s e "gchars st" k "gradColors st"] se k len g
      show ?thesis by (simp add: True)
    next
      case False
      with ie after have a: "int e < gradStart st"
        "color (gchars st ! k) = run_color c0 c1 s e k" using close(1) k by auto
      from interpolateRegion_other [of "gradStart st" "int i - 1" k "gchars st" "gradColors st"]
        close(1) o a(1) k
      have "?interp ! k = gchars st ! k" by simp
      with a(2) show ?thesis by simp
    qed
    show ?thesis
    proof (cases "2 \<le> length ?gc")
      case True
      then have iln: "i < ?n" by (simp add: gc split: if_splits)
      with True have gci: "?gc = gradientColors (cs ! i)" "2 \<le> length (gradientColors (cs ! i))"
        by (simp_all add: gc)
      have "s = i \<longrightarrow> ?gc ! 0 = c0 \<and> ?gc ! 1 = c1"
        using ends [of s] se by (auto simp: gci has_endpoints_def dest!: eq_v_eq)
      with True not_run colors gci iln show ?thesis
        unfolding step grad_inv_def by (auto simp: len ilen igc)
    next
      case False
      have "s \<noteq> i"
      proof
        assume "s = i"
        with ends [of s] se have "has_endpoints (cs ! i) c0 c1" "i < ?n" by simp_all
        with False show False by (simp add: gc has_endpoints_def)
      qed
      with False not_run colors i show ?thesis
        unfolding step grad_inv_def by (auto simp: len ilen igc)
    qed
  next
    case continue
    note step = applyGradients_step_continue [OF continue]
    from continue(2) have iln: "i < ?n" and gci: "?gc = gradientColors (cs ! i)"
      and same: "2 \<le> length (gradientColors (cs ! i))"
        "gradientColors (cs ! i) ! 0 = gradColors st ! 0"
        "gradientColors (cs ! i) ! 1 = gradColors st ! 1"
      by (auto simp: same_grad_def gc split: if_splits dest!: eq_v_eq)
    from at_s continue have "i \<noteq> s" by blast
    moreover have "i \<noteq> e + 1"
    proof
      assume ie: "i = e + 1"
      with inside se have g: "gradColors st ! 0 = c0" "gradColors st ! 1 = c1" by simp_all
      from open_run [OF continue(1)] have "2 \<le> length (gradColors st)" by simp
      from same_iff [OF this g] continue(2) have "has_endpoints (cs ! i) c0 c1" by simp
      with right ie iln show False by simp
    qed
    ultimately show ?thesis
      using inv open_run [OF continue(1)] iln same unfolding step grad_inv_def by auto
  next
    case idle
    note step = applyGradients_step_idle [OF idle]
    from inside idle have not_run: "\<not> (s < i \<and> i \<le> e + 1)" by auto
    show ?thesis
    proof (cases "2 \<le> length ?gc")
      case True
      then have iln: "i < ?n" by (simp add: gc split: if_splits)
      with True have gci: "?gc = gradientColors (cs ! i)" "2 \<le> length (gradientColors (cs ! i))"
        by (simp_all add: gc)
      have "s = i \<longrightarrow> ?gc ! 0 = c0 \<and> ?gc ! 1 = c1"
        using ends [of s] se by (auto simp: gci has_endpoints_def dest!: eq_v_eq)
      with True not_run gci iln inv show ?thesis
        unfolding step grad_inv_def by auto
    next
      case False
      have "s \<noteq> i"
      proof
        assume "s = i"
        with ends [of s] se have "has_endpoints (cs ! i) c0 c1" "i < ?n" by simp_all
        with False show False by (simp add: gc has_endpoints_def)
      qed
      with False not_run inv idle show ?thesis
        unfolding step grad_inv_def by auto
    qed
  qed
qed

lemma grad_inv_fold:
  assumes run: "maximal_run cs s e c0 c1"
  shows "i \<le> length cs + 1 \<Longrightarrow>
         grad_inv cs s e c0 c1 i
           (fold applyGradients_step [0..<i] \<lparr>gradStart = - 1, gradColors = [], gchars = cs\<rparr>)"
proof (induction i)
  case 0
  show ?case by (simp add: grad_inv_def)
next
  case (Suc i)
  then have "i \<le> length cs" by simp
  from grad_inv_step [OF run Suc.IH this] Suc.prems show ?case by simp
qed

lemma applyGradients_run_color:
  assumes run: "maximal_run cs s e c0 c1" and k: "s \<le> k" "k \<le> e"
  shows "color (applyGradients cs ! k) = run_color c0 c1 s e k"
proof -
  from run have "e < length cs" by (simp add: maximal_run_def)
  with grad_inv_fold [OF run, of "length cs + 1"] k show ?thesis
    by (simp add: applyGradients_def grad_inv_def)
qed

lemma unit_fraction:
  assumes "s \<le> k" "k \<le> e" "s < e"
  shows "0 \<le> (of_nat (k - s) / of_nat (e - s) :: rat)" "(of_nat (k - s) / of_nat (e - s) :: rat) \<le> 1"
  using assms by (simp_all add: divide_le_eq_1)

lemma fl_unit_error:
  assumes "0 \<le> t" "t \<le> 1"
  shows "\<bar>fl t - t\<bar> \<le> 1 / 2 ^ 53"
proof -
  from assms have "\<bar>t\<bar> / 2 ^ 53 \<le> 1 / 2 ^ 53" by (intro divide_right_mono) simp_all
  with fl_error [of t] show ?thesis by (rule order_trans)
qed

lemma run_color_channels:
  assumes k: "s \<le> k" "k \<le> e" and se: "s < e"
  defines "t \<equiv> of_nat (k - s) / of_nat (e - s) :: rat"
  shows "\<exists>n. run_color c0 c1 s e k = Number (Fin (of_int n)) \<and> 0 \<le> n \<and> n < 2 ^ 24
            \<and> (\<forall>sh \<in> {16, 8, 0}.
                  take_bit 8 (drop_bit sh n) = lerp_double sh c0 c1 t
                  \<and> \<bar>of_int (take_bit 8 (drop_bit sh n)) - lerp_exact sh c0 c1 t\<bar>
                       \<le> 1 / 2 + 1 / 2 ^ 43)"
proof -
  have t: "0 \<le> t" "t \<le> 1" unfolding t_def using unit_fraction [OF k se] by simp_all
  note q = fl_unit_error [OF t]
  let ?v = "\<lambda>sh. lerp_double sh c0 c1 t"
  let ?n = "or (or (push_bit 16 (take_bit 8 (?v 16))) (push_bit 8 (take_bit 8 (?v 8))))
               (take_bit 8 (?v 0))"
  from lerpColor_channels [OF t q, where a = c0 and b = c1]
  have l: "lerpColor c0 c1 (Fin (fl t)) = int_n ?n"
    and tb: "\<And>sh. take_bit 8 (?v sh) = ?v sh"
    and err: "\<And>sh. \<bar>of_int (?v sh) - lerp_exact sh c0 c1 t\<bar> \<le> 1 / 2 + 1 / 2 ^ 43"
    unfolding lerp_double_def by blast+
  have ch: "take_bit 8 (drop_bit 16 ?n) = ?v 16" "take_bit 8 (drop_bit 8 ?n) = ?v 8"
    "take_bit 8 (drop_bit 0 ?n) = ?v 0"
    using unpack_rgb(1-3) [of "?v 16" "?v 8" "?v 0"] by (simp_all only: tb)
  have rg: "0 \<le> ?n" "?n < 2 ^ 24"
    using unpack_rgb(4-5) [of "?v 16" "?v 8" "?v 0"] by blast+
  have "run_color c0 c1 s e k = Number (Fin (of_int ?n))"
    using se l by (simp add: run_color_def t_def int_n_def)
  moreover have "\<forall>sh \<in> {16, 8, 0}.
                  take_bit 8 (drop_bit sh ?n) = ?v sh
                  \<and> \<bar>of_int (take_bit 8 (drop_bit sh ?n)) - lerp_exact sh c0 c1 t\<bar>
                       \<le> 1 / 2 + 1 / 2 ^ 43"
    using ch err by (simp del: drop_bit_0)
  ultimately show ?thesis using rg by blast
qed

text \<open>
  C4, amended.  In a maximal run \<open>s..e\<close> of \<open>N = e - s + 1\<close> consecutive characters sharing
  the endpoint colours \<open>c0\<close>, \<open>c1\<close>: when \<open>N = 1\<close> the character receives \<open>c0\<close> itself;
  when \<open>N > 1\<close> the character at \<open>k\<close> receives a 24-bit colour of which each 8-bit
  channel is \<open>Math.round(a + (b - a) * t)\<close> as computed in doubles, \<open>a\<close> and \<open>b\<close> being that
  channel of \<open>c0\<close> and \<open>c1\<close> and \<open>t = (k - s) / (N - 1)\<close>, and this channel value is within
  \<open>1/2 + 2^-43\<close> of the exact linear interpolation \<open>a + (b - a) * t\<close>.  For \<open>N > 1\<close> and
  endpoint colours in the 24-bit range, the first and the last character receive exactly
  \<open>c0\<close> and \<open>c1\<close>.
\<close>

theorem applyGradients_interpolates:
  assumes "maximal_run cs s e c0 c1"
  shows "(e = s \<longrightarrow> color (applyGradients cs ! s) = c0)
         \<and> (s < e \<longrightarrow>
              (\<forall>k \<in> {s..e}. \<exists>n.
                 color (applyGradients cs ! k) = Number (Fin (of_int n)) \<and> 0 \<le> n \<and> n < 2 ^ 24
                 \<and> (\<forall>sh \<in> {16, 8, 0}.
                       take_bit 8 (drop_bit sh n)
                         = lerp_double sh c0 c1 (of_nat (k - s) / of_nat (e - s))
                       \<and> \<bar>of_int (take_bit 8 (drop_bit sh n))
                            - lerp_exact sh c0 c1 (of_nat (k - s) / of_nat (e - s))\<bar>
                           \<le> 1 / 2 + 1 / 2 ^ 43)))
         \<and> (s < e \<and> is_rgb c0 \<and> is_rgb c1
              \<longrightarrow> color (applyGradients cs ! s) = c0 \<and> color (applyGradients cs ! e) = c1)"
proof -
  from assms have se: "s \<le> e" by (simp add: maximal_run_def)
  have 1: "color (applyGradients cs ! s) = c0" if "e = s"
    using applyGradients_run_color [OF assms, of s] that by (simp add: run_color_def)
  have 2: "\<exists>n. color (applyGradients cs ! k) = Number (Fin (of_int n)) \<and> 0 \<le> n \<and> n < 2 ^ 24
                 \<and> (\<forall>sh \<in> {16, 8, 0}.
                       take_bit 8 (drop_bit sh n)
                         = lerp_double sh c0 c1 (of_nat (k - s) / of_nat (e - s))
                       \<and> \<bar>of_int (take_bit 8 (drop_bit sh n))
                            - lerp_exact sh c0 c1 (of_nat (k - s) / of_nat (e - s))\<bar>
                           \<le> 1 / 2 + 1 / 2 ^ 43)"
    if "s < e" "k \<in> {s..e}" for k
  proof -
    from that have k: "s \<le> k" "k \<le> e" by simp_all
    from applyGradients_run_color [OF assms k]
      run_color_channels [OF k that(1), where ?c0.0 = c0 and ?c1.0 = c1]
    show ?thesis by simp
  qed
  have 3: "color (applyGradients cs ! s) = c0 \<and> color (applyGradients cs ! e) = c1"
    if "s < e" "is_rgb c0" "is_rgb c1"
  proof -
    from that(2) obtain k0 where c0: "c0 = Number (Fin (of_int k0))" by (rule is_rgbE)
    from that(3) obtain k1 where c1: "c1 = Number (Fin (of_int k1))" by (rule is_rgbE)
    from that(1) have "color (applyGradients cs ! s) = Number (lerpColor c0 c1 (Fin 0))"
      using applyGradients_run_color [OF assms, of s] by (simp add: run_color_def)
    moreover from that(1) have "color (applyGradients cs ! e) = Number (lerpColor c0 c1 (Fin 1))"
      using applyGradients_run_color [OF assms, of e] fl_of_int [of 1] by (simp add: run_color_def)
    ultimately show ?thesis
      using lerpColor_start [OF that(2), of c1] lerpColor_end [OF that(3), of c0] c0 c1 by simp
  qed
  from 1 2 3 show ?thesis by blast
qed

lemma grad_char_simps [simp]: "gradientColors (grad_char gcs) = gcs"
  by (simp add: grad_char_def createParsedChar_def StyleState.defs ParsedChar.defs)

lemma grad_tie_run: "maximal_run grad_tie 0 10 (Number (Fin 0)) (Number (Fin 45))"
  by (simp add: maximal_run_def grad_tie_def has_endpoints_def eq_n_def)

lemma grad_tie_values:
  "lerp_double 16 (Number (Fin 0)) (Number (Fin 45)) (7 / 10) = 0"
  "lerp_double 8 (Number (Fin 0)) (Number (Fin 45)) (7 / 10) = 0"
  "lerp_double 0 (Number (Fin 0)) (Number (Fin 45)) (7 / 10) = 31"
  "lerp_exact 0 (Number (Fin 0)) (Number (Fin 45)) (7 / 10) = 63 / 2"
  by code_simp+

theorem applyGradients_interpolates_witness:
  "maximal_run grad_tie 0 10 (Number (Fin 0)) (Number (Fin 45))
   \<and> color (applyGradients grad_tie ! 7) = Number (Fin 31)
   \<and> lerp_exact 0 (Number (Fin 0)) (Number (Fin 45)) (7 / 10) = 63 / 2
   \<and> color (applyGradients grad_tie ! 0) = Number (Fin 0)
   \<and> color (applyGradients grad_tie ! 10) = Number (Fin 45)"
proof -
  have rgb: "is_rgb (Number (Fin 0))" "is_rgb (Number (Fin 45))" by simp_all
  note th = applyGradients_interpolates [OF grad_tie_run]
  from th have "\<forall>k \<in> {0..10}. \<exists>n.
                 color (applyGradients grad_tie ! k) = Number (Fin (of_int n)) \<and> 0 \<le> n \<and> n < 2 ^ 24
                 \<and> (\<forall>sh \<in> {16, 8, 0}.
                       take_bit 8 (drop_bit sh n)
                         = lerp_double sh (Number (Fin 0)) (Number (Fin 45))
                             (of_nat (k - 0) / of_nat (10 - 0))
                       \<and> \<bar>of_int (take_bit 8 (drop_bit sh n))
                            - lerp_exact sh (Number (Fin 0)) (Number (Fin 45))
                                (of_nat (k - 0) / of_nat (10 - 0))\<bar>
                           \<le> 1 / 2 + 1 / 2 ^ 43)"
    by simp
  then have "\<exists>n. color (applyGradients grad_tie ! 7) = Number (Fin (of_int n)) \<and> 0 \<le> n \<and> n < 2 ^ 24
                 \<and> (\<forall>sh \<in> {16, 8, 0}.
                       take_bit 8 (drop_bit sh n)
                         = lerp_double sh (Number (Fin 0)) (Number (Fin 45))
                             (of_nat (7 - 0) / of_nat (10 - 0))
                       \<and> \<bar>of_int (take_bit 8 (drop_bit sh n))
                            - lerp_exact sh (Number (Fin 0)) (Number (Fin 45))
                                (of_nat (7 - 0) / of_nat (10 - 0))\<bar>
                           \<le> 1 / 2 + 1 / 2 ^ 43)"
    by (rule bspec) simp
  then obtain n where n: "color (applyGradients grad_tie ! 7) = Number (Fin (of_int n))"
      "0 \<le> n" "n < 2 ^ 24"
    and ch: "take_bit 8 (drop_bit 16 n)
               = lerp_double 16 (Number (Fin 0)) (Number (Fin 45)) (of_nat (7 - 0) / of_nat (10 - 0))"
      "take_bit 8 (drop_bit 8 n)
               = lerp_double 8 (Number (Fin 0)) (Number (Fin 45)) (of_nat (7 - 0) / of_nat (10 - 0))"
      "take_bit 8 (drop_bit 0 n)
               = lerp_double 0 (Number (Fin 0)) (Number (Fin 45)) (of_nat (7 - 0) / of_nat (10 - 0))"
    by blast
  have f: "(of_nat (7 - 0) / of_nat (10 - 0) :: rat) = 7 / 10" by simp
  from ch have "take_bit 8 (drop_bit 16 n) = 0" "take_bit 8 (drop_bit 8 n) = 0" "take_bit 8 n = 31"
    unfolding f grad_tie_values(1-3) by simp_all
  with recombine_rgb [OF n(2,3)] have "n = 31" by simp
  with n(1) have 7: "color (applyGradients grad_tie ! 7) = Number (Fin 31)" by simp
  from th rgb have "color (applyGradients grad_tie ! 0) = Number (Fin 0)"
    "color (applyGradients grad_tie ! 10) = Number (Fin 45)" by simp_all
  with 7 grad_tie_run grad_tie_values(4) show ?thesis by simp
qed

text \<open>
  C4 as stated fails for an endpoint outside the 24-bit range: in a run of two characters
  with start colour \<open>0x1234567\<close> the first character receives \<open>0x234567\<close>.
\<close>

lemma grad_wide_run: "maximal_run grad_wide 0 1 (Number (Fin 19088743)) (Number (Fin 0))"
  by (simp add: maximal_run_def grad_wide_def has_endpoints_def eq_n_def nth_Cons' atLeastAtMost_iff)

lemma lerpColor_wide: "lerpColor (Number (Fin 19088743)) (Number (Fin 0)) (Fin 0) = Fin 2311527"
  by code_simp

theorem applyGradients_endpoint_counterexample:
  "maximal_run grad_wide 0 1 (Number (Fin 19088743)) (Number (Fin 0))
   \<and> color (applyGradients grad_wide ! 0) = Number (Fin 2311527)
   \<and> Number (Fin 2311527) \<noteq> Number (Fin 19088743)"
  using applyGradients_run_color [OF grad_wide_run, of 0] grad_wide_run lerpColor_wide
  by (simp add: run_color_def)

section \<open>Properties of the markup parser\<close>

lemma hash_values:
    "hashCode (str ''color'') = 2622520936"
    "hashCode (str ''alpha'') = 1569418667"
    "hashCode (str ''b'') = 3876335076"
    "hashCode (str ''i'') = 3960223172"
    "hashCode (str ''u'') = 4027333648"
    "hashCode (str ''s'') = 4127999360"
    "hashCode (str ''strikethrough'') = 1020790072"
    "hashCode (str ''mark'') = 3464163236"
    "hashCode (str ''size'') = 697312980"
    "hashCode (str ''cspace'') = 1372328636"
    "hashCode (str ''mspace'') = 4017596036"
    "hashCode (str ''duospace'') = 1091084128"
    "hashCode (str ''nobr'') = 310295498"
    "hashCode (str ''br'') = 1311490850"
    "hashCode (str ''nbsp'') = 1855529552"
    "hashCode (str ''zwsp'') = 2413535832"
    "hashCode (str ''softhyphen'') = 3779390882"
    "hashCode (str ''shy'') = 3374926420"
    "hashCode (str ''en-space'') = 3962948748"
    "hashCode (str ''em-space'') = 1784460"
    "hashCode (str ''noparse'') = 706431820"
    "hashCode (str ''cr'') = 1193900422"
    "hashCode (str ''zwj'') = 2411372592"
    "hashCode (str ''align'') = 2183710668"
    "hashCode (str ''voffset'') = 3603610360"
    "hashCode (str ''indent'') = 1531028234"
    "hashCode (str ''margin'') = 1705731382"
    "hashCode (str ''margin-left'') = 2647677188"
    "hashCode (str ''margin-right'') = 1019490100"
    "hashCode (str ''padding'') = 247292468"
    "hashCode (str ''line-height'') = 1763353652"
    "hashCode (str ''space'') = 4155505908"
    "hashCode (str ''pos'') = 1820289688"
    "hashCode (str ''line-indent'') = 1899512192"
    "hashCode (str ''allcaps'') = 20569476"
    "hashCode (str ''uppercase'') = 4080159600"
    "hashCode (str ''lowercase'') = 2328986988"
    "hashCode (str ''smallcaps'') = 1206557520"
    "hashCode (str ''sup'') = 3729374988"
    "hashCode (str ''sub'') = 3427377848"
    "hashCode (str ''link'') = 986275580"
    "hashCode (str ''a'') = 3826002220"
    "hashCode (str ''font'') = 2502591100"
    "hashCode (str ''font-weight'') = 3420739388"
    "hashCode (str ''scale'') = 3096468044"
    "hashCode (str ''rotate'') = 382554512"
    "hashCode (str ''gradient'') = 4008263044"
    "hashCode (str ''width'') = 3839439304"
    "hashCode (str ''material'') = 1653131168"
    "hashCode (str ''style'') = 500138676"
    "hashCode (str ''sprite'') = 3648866624"
    "hashCode (str ''unknown'') = 2483423468"
  by code_simp+

lemma toLowerCase_lower: "list_all (\<lambda>c. \<not> (65 \<le> c \<and> c \<le> 90)) s \<Longrightarrow> toLowerCase s = s"
  by (induction s) (simp_all add: toLowerCase_def lower_unit_def)

lemma new_registry_lookup_b:
  "new_registry (hashCode (str ''b'')) = Some \<lparr>te_name = str ''b'', onOpen = b_open, onClose = b_close\<rparr>"
  by (simp add: new_registry_def registerColorTags_def registerFormattingTags_def registerSizeTags_def
      registerSpecialTags_def registerLayoutTags_def registerCaseTags_def registerLinkTags_def
      registerFontTags_def registerTransformTags_def registerGradientTags_def register_def
      toLowerCase_lower str_def hash_values [unfolded str_def, simplified])

lemmas hash_list = hash_values [unfolded str_def, simplified]

lemmas registry_defs = new_registry_def registerColorTags_def registerFormattingTags_def
  registerSizeTags_def registerSpecialTags_def registerLayoutTags_def registerCaseTags_def
  registerLinkTags_def registerFontTags_def registerTransformTags_def registerGradientTags_def
  register_def

declare parse_loop.simps [simp del]

lemma parse_loop_step:
  "pos l < length text \<Longrightarrow>
   parse_loop reg sheet text base l = parse_loop reg sheet text base (parse_step reg sheet text base l)"
  by (subst parse_loop.simps) simp

lemma parse_loop_done: "\<not> pos l < length text \<Longrightarrow> parse_loop reg sheet text base l = l"
  by (subst parse_loop.simps) simp

text \<open>Selectors on the constructed records.\<close>

lemma createParsedChar_sel [simp]:
  "bold (createParsedChar c i st) = bold st"
  "char (createParsedChar c i st) = c"
  "extraSpace (createParsedChar c i st) = Fin 0"
  "isNaN (fixedPosition (createParsedChar c i st))"
  "fontSize (createParsedChar c i st) = fontSize st"
  "color (createParsedChar c i st) = color st"
  "gradientColors (createParsedChar c i st) = gradientColors st"
  by (simp_all add: createParsedChar_def StyleState.defs ParsedChar.defs isNaN_def)

lemma createDefaultStyleState_sel [simp]:
  "bold (createDefaultStyleState fs c ff) = False"
  "isAllCaps (createDefaultStyleState fs c ff) = False"
  "isLowercase (createDefaultStyleState fs c ff) = False"
  "isSmallCaps (createDefaultStyleState fs c ff) = False"
  "fontSize (createDefaultStyleState fs c ff) = fs"
  "color (createDefaultStyleState fs c ff) = Number c"
  "gradientColors (createDefaultStyleState fs c ff) = []"
  by (simp_all add: createDefaultStyleState_def)

lemma reset_stacks_sel [simp]:
  "boldCount (reset_stacks fs c ff p) = boldCount p"
  "boldStack (reset_stacks fs c ff p) = reset False (boldStack p)"
  by (simp_all add: reset_stacks_def)

lemma new_Parser_sel [simp]: "boldCount new_Parser = 0"
  by (simp add: new_Parser_def)

lemma new_registry_lookup_b':
  "new_registry (hashCode [98]) = Some \<lparr>te_name = str ''b'', onOpen = b_open, onClose = b_close\<rparr>"
  using new_registry_lookup_b by (simp add: str_def)

lemma erase_color_set_color [simp]: "erase_color (set_color i c cs) = erase_color cs"
proof (rule nth_equalityI)
  show "length (erase_color (set_color i c cs)) = length (erase_color cs)"
    by (simp add: erase_color_def set_color_def)
  fix k assume "k < length (erase_color (set_color i c cs))"
  then have "k < length cs" by (simp add: erase_color_def set_color_def)
  then show "erase_color (set_color i c cs) ! k = erase_color cs ! k"
    by (cases "k = i") (simp_all add: erase_color_def set_color_def)
qed

lemma erase_color_fold_set_color [simp]:
  "erase_color (fold (\<lambda>i. set_color (nat i) (f i)) js cs) = erase_color cs"
  by (induction js arbitrary: cs) simp_all

lemma erase_color_interpolateRegion [simp]:
  "erase_color (interpolateRegion cs a b g) = erase_color cs"
  by (simp add: interpolateRegion_def Let_def)

lemma erase_color_applyGradients_step [simp]:
  "erase_color (gchars (applyGradients_step i st)) = erase_color (gchars st)"
  by (simp add: applyGradients_step_def Let_def)

lemma erase_color_fold_step:
  "erase_color (gchars (fold applyGradients_step js st)) = erase_color (gchars st)"
  by (induction js arbitrary: st) simp_all

lemma erase_color_applyGradients [simp]: "erase_color (applyGradients cs) = erase_color cs"
  by (simp add: applyGradients_def erase_color_fold_step)

text \<open>The gradient pass changes no field but \<open>color\<close>.\<close>

lemma applyGradients_fields:
  "map bold (applyGradients cs) = map bold cs"
  "map italic (applyGradients cs) = map italic cs"
  "map underline (applyGradients cs) = map underline cs"
  "map strikethrough (applyGradients cs) = map strikethrough cs"
  "map char (applyGradients cs) = map char cs"
  "map extraSpace (applyGradients cs) = map extraSpace cs"
  "map fixedPosition (applyGradients cs) = map fixedPosition cs"
  "map fontSize (applyGradients cs) = map fontSize cs"
  "map charScale (applyGradients cs) = map charScale cs"
  "map rotation (applyGradients cs) = map rotation cs"
proof -
  have e: "map f (applyGradients cs) = map f cs" if "\<And>p. f (p\<lparr>color := Number (Fin 0)\<rparr>) = f p"
    for f :: "ParsedChar \<Rightarrow> 'a"
  proof -
    have "map f (applyGradients cs) = map f (erase_color (applyGradients cs))"
      by (simp add: erase_color_def that del: erase_color_applyGradients)
    also have "\<dots> = map f (erase_color cs)" by simp
    also have "\<dots> = map f cs" by (simp add: erase_color_def that)
    finally show ?thesis .
  qed
  show "map bold (applyGradients cs) = map bold cs"
    "map italic (applyGradients cs) = map italic cs"
    "map underline (applyGradients cs) = map underline cs"
    "map strikethrough (applyGradients cs) = map strikethrough cs"
    "map char (applyGradients cs) = map char cs"
    "map extraSpace (applyGradients cs) = map extraSpace cs"
    "map fixedPosition (applyGradients cs) = map fixedPosition cs"
    "map fontSize (applyGradients cs) = map fontSize cs"
    "map charScale (applyGradients cs) = map charScale cs"
    "map rotation (applyGradients cs) = map rotation cs"
    by (rule e, simp)+
qed

lemma parse_eq:
  "parse reg sheet p text fs c ff =
     (applyGradients (result (parse_loop reg sheet text fs (parse_start p fs c ff))),
      lp_parser (parse_loop reg sheet text fs (parse_start p fs c ff)))"
  by (simp add: parse_def parse_start_def Let_def)

lemmas exec_simps = parse_loop_step parse_loop_done parse_step_def step_markup_def
      step_color_shorthand_def step_color_close_def step_tag_def step_char_def apply_pending_def
      emit_def tryParseTag_def str_def indexOf_from_def substring_def trim_def is_space_def Let_def
      toLowerCase_def lower_unit_def getByHash_def
      eq_n_def isNaN_def push_def pop_def reset_def

lemma unbalanced_loop:
  "boldCount p = k \<Longrightarrow>
   map bold (result (parse_loop new_registry None (str ''<b></b>A<b>'') (Fin 32)
      (parse_start p (Fin 32) (Fin 16777215) (str ''F''))))
   = [0 < max 0 (k + 1 - 1)]
   \<and> boldCount (lp_parser (parse_loop new_registry None (str ''<b></b>A<b>'') (Fin 32)
      (parse_start p (Fin 32) (Fin 16777215) (str ''F'')))) = max 0 (k + 1 - 1) + 1"
  unfolding parse_start_def
  by (simp add: exec_simps new_registry_lookup_b' b_open_def b_close_def)

text \<open>
  C7 fails on the code: the counters of the toggle tags are variables captured by the
  handlers, and \<open>parse\<close> resets the stacks only.  On a new parser the text
  \<open><b></b>A<b>\<close> gives \<open>A\<close> not bold; the same call repeated on the same parser gives
  \<open>A\<close> bold.
\<close>

theorem parse_not_independent:
  "map bold (fst (parse new_registry None new_Parser (str ''<b></b>A<b>'') (Fin 32) (Fin 16777215) (str ''F'')))
     = [False]
   \<and> map bold (fst (parse new_registry None
         (snd (parse new_registry None new_Parser (str ''<b></b>A<b>'') (Fin 32) (Fin 16777215) (str ''F'')))
         (str ''<b></b>A<b>'') (Fin 32) (Fin 16777215) (str ''F'')))
     = [True]"
proof -
  let ?p1 = "snd (parse new_registry None new_Parser (str ''<b></b>A<b>'') (Fin 32) (Fin 16777215) (str ''F''))"
  from unbalanced_loop [of new_Parser 0]
  have 1: "map bold (fst (parse new_registry None new_Parser (str ''<b></b>A<b>'') (Fin 32) (Fin 16777215) (str ''F''))) = [False]"
    and c: "boldCount ?p1 = 1"
    by (simp_all add: parse_eq applyGradients_fields)
  from unbalanced_loop [OF c] have "map bold (fst (parse new_registry None ?p1 (str ''<b></b>A<b>'') (Fin 32) (Fin 16777215) (str ''F''))) = [True]"
    by (simp add: parse_eq applyGradients_fields)
  with 1 show ?thesis by simp
qed

lemma fixedPosition_createParsedChar [simp]: "fixedPosition (createParsedChar c i st) = NaN"
  by (simp add: createParsedChar_def StyleState.defs ParsedChar.defs)

lemma eq_n_Fin0: "eq_n x (Fin 0) = (x = Fin 0)"
  by (cases x) (simp_all add: eq_n_def)

lemma isNaN_iff: "isNaN x = (x = NaN)"
  by (cases x) (simp_all add: isNaN_def)

lemma parseFloat_10: "parseFloat [49, 48] = Fin 10"
  by (simp add: parseFloat_def take_sign_def startsWith_def str_def is_digit_def digits_value_def
      pow10_def exponent_part_def Let_def is_space_def)

lemma parseUnit_10: "parseUnit [49, 48] base = Fin 10"
  by (simp add: parseUnit_def trim_def is_space_def endsWith_def str_def parseFloat_10 Let_def
      or_n_def truthy_n_def)

lemma no_quotes_10: "startsWith [49, 48] [34] = False" "startsWith [49, 48] [39] = False"
  by (simp_all add: startsWith_def)

lemma parseFloat_5: "parseFloat [53] = Fin 5"
  by (simp add: parseFloat_def take_sign_def startsWith_def str_def is_digit_def digits_value_def
      pow10_def exponent_part_def Let_def is_space_def)

lemma parseUnit_5: "parseUnit [53] base = Fin 5"
  by (simp add: parseUnit_def trim_def is_space_def endsWith_def str_def parseFloat_5 Let_def
      or_n_def truthy_n_def)

lemma no_quotes_5: "startsWith [53] [34] = False" "startsWith [53] [39] = False"
  by (simp_all add: startsWith_def)

lemma pending_mark_loop:
  "map (\<lambda>pc. (char pc, extraSpace pc, fixedPosition pc))
     (result (parse_loop new_registry None (str ''<space=10><pos=5><br>A'') (Fin 32)
        (parse_start p (Fin 32) (Fin 16777215) (str ''F''))))
   = [([10], Fin 0, NaN), ([65], Fin 10, Fin 5)]"
  unfolding parse_start_def
  by (simp add: exec_simps parseUnit_10 no_quotes_10 parseUnit_5 no_quotes_5)

lemma applyGradients_pending:
  "map (\<lambda>pc. (char pc, extraSpace pc, fixedPosition pc)) (applyGradients cs)
     = map (\<lambda>pc. (char pc, extraSpace pc, fixedPosition pc)) cs"
proof -
  have "map (\<lambda>pc. (char pc, extraSpace pc, fixedPosition pc)) xs
        = zip (map char xs) (zip (map extraSpace xs) (map fixedPosition xs))" for xs :: "ParsedChar list"
    by (induction xs) simp_all
  then show ?thesis by (simp add: applyGradients_fields)
qed

lemma new_registry_lookup_scale:
  "new_registry (hashCode (str ''scale'')) = Some \<lparr>te_name = str ''scale'', onOpen = scale_open, onClose = scale_close\<rparr>"
  "new_registry (hashCode (str ''rotate'')) = Some \<lparr>te_name = str ''rotate'', onOpen = rotate_open, onClose = rotate_close\<rparr>"
  "new_registry (hashCode (str ''size'')) = Some \<lparr>te_name = str ''size'', onOpen = size_open, onClose = size_close\<rparr>"
  "new_registry (hashCode (str ''color'')) = Some \<lparr>te_name = str ''color'', onOpen = color_open, onClose = color_close\<rparr>"
  by (simp_all add: new_registry_def registerColorTags_def registerFormattingTags_def registerSizeTags_def
      registerSpecialTags_def registerLayoutTags_def registerCaseTags_def registerLinkTags_def
      registerFontTags_def registerTransformTags_def registerGradientTags_def register_def
      toLowerCase_lower str_def hash_list)

lemma parseFloat_abc: "parseFloat [97, 98, 99] = NaN"
  by (simp add: parseFloat_def take_sign_def startsWith_def str_def is_digit_def Let_def is_space_def)

lemma trim_abc: "trim [97, 98, 99] = [97, 98, 99]"
  by (simp add: trim_def is_space_def)

lemma size_open_abc:
  "size_open st [97, 98, 99] base p
     = (st\<lparr>fontSize := Fin 0\<rparr>, p\<lparr>sizeStack := push (Fin 0) (sizeStack p)\<rparr>)"
  by (simp add: size_open_def parseUnit_def trim_def is_space_def startsWith_def endsWith_def
      str_def parseFloat_abc Let_def or_n_def truthy_n_def)

lemmas lookups = new_registry_lookup_scale [unfolded str_def, simplified]

lemma no_quotes_abc:
  "startsWith [97, 98, 99] [34] = False" "startsWith [97, 98, 99] [39] = False"
  "startsWith [35, 122, 122, 122] [34] = False" "startsWith [35, 122, 122, 122] [39] = False"
  by (simp_all add: startsWith_def)

lemma createParsedChar_sel2 [simp]:
  "charScale (createParsedChar c i st) = charScale st"
  "rotation (createParsedChar c i st) = rotation st"
  by (simp_all add: createParsedChar_def StyleState.defs ParsedChar.defs)

lemma createDefaultStyleState_sel2 [simp]:
  "charScale (createDefaultStyleState fs c ff) = Fin 1"
  "rotation (createDefaultStyleState fs c ff) = Fin 0"
  by (simp_all add: createDefaultStyleState_def)

lemma parseFloat_2: "parseFloat [50] = Fin 2"
  by (simp add: parseFloat_def take_sign_def startsWith_def str_def is_digit_def digits_value_def
      pow10_def exponent_part_def Let_def is_space_def)

lemma no_quotes_2: "startsWith [50] [34] = False" "startsWith [50] [39] = False"
  by (simp_all add: startsWith_def)

lemma scale_example_loop:
  "map (\<lambda>pc. (char pc, charScale pc))
     (result (parse_loop new_registry None (str ''<scale=2>A<scale=abc>B</scale>C'') (Fin 32)
        (parse_start p (Fin 32) (Fin 16777215) (str ''F''))))
   = [([65], Fin 2), ([66], Fin 2), ([67], Fin 1)]"
  unfolding parse_start_def
  by (simp add: exec_simps lookups no_quotes_abc no_quotes_2 scale_open_def scale_close_def
      parseFloat_abc parseFloat_2 reset_stacks_def)

lemma applyGradients_scale:
  "map (\<lambda>pc. (char pc, charScale pc)) (applyGradients cs) = map (\<lambda>pc. (char pc, charScale pc)) cs"
proof -
  have "map (\<lambda>pc. (char pc, charScale pc)) xs = zip (map char xs) (map charScale xs)"
    for xs :: "ParsedChar list"
    by (induction xs) simp_all
  then show ?thesis by (simp add: applyGradients_fields)
qed

text \<open>
  C1 fails on the code.  In \<open><scale=2>A<scale=abc>B</scale>C\<close> the pair
  \<open><scale=abc>\<close> ... \<open></scale>\<close> is balanced.  Its open handler pushes nothing, since
  \<open>parseFloat\<close> finds no number in \<open>abc\<close>; its close handler pops all the same and so takes
  off the value of the outer \<open><scale=2>\<close>: the scale is 2 before the pair (on \<open>A\<close> and
  \<open>B\<close>) and 1 after it (on \<open>C\<close>).
\<close>

theorem scale_close_pops_after_ignored_open:
  "map (\<lambda>pc. (char pc, charScale pc))
     (fst (parse new_registry None new_Parser (str ''<scale=2>A<scale=abc>B</scale>C'')
             (Fin 32) (Fin 16777215) (str ''F'')))
   = [([65], Fin 2), ([66], Fin 2), ([67], Fin 1)]"
  using scale_example_loop [of new_Parser]
  by (simp only: parse_eq fst_conv applyGradients_scale)

lemma open_bold_loop:
  "boldCount p = k \<Longrightarrow>
   boldCount (lp_parser (parse_loop new_registry None (str ''<b>'') (Fin 32)
      (parse_start p (Fin 32) (Fin 16777215) (str ''F'')))) = k + 1"
  unfolding parse_start_def
  by (simp add: exec_simps new_registry_lookup_b' b_open_def)

lemma plain_char_loop:
  "parse_loop new_registry None (str ''A'') (Fin 32) (parse_start p (Fin 32) (Fin 16777215) (str ''F''))
   = (parse_start p (Fin 32) (Fin 16777215) (str ''F''))
       \<lparr>result := [createParsedChar [65] 0 (createDefaultStyleState (Fin 32) (Fin 16777215) (str ''F''))],
        pos := 1\<rparr>"
  unfolding parse_start_def
  by (simp add: exec_simps)

text \<open>
  C3 fails on the code.  The counters live as long as the parser.  After \<open>parse\<close> of
  \<open><b>\<close> the counter of \<open>b\<close> is 1; a second \<open>parse\<close>, of \<open>A\<close>, on the same parser starts
  from a new style state and does not reset the counter: the record of \<open>A\<close> is not bold
  while the counter is 1 from the first to the last round.
\<close>

theorem stale_toggle_counter:
  "boldCount (snd (parse new_registry None new_Parser (str ''<b>'') (Fin 32) (Fin 16777215) (str ''F''))) = 1
   \<and> map bold (fst (parse new_registry None
         (snd (parse new_registry None new_Parser (str ''<b>'') (Fin 32) (Fin 16777215) (str ''F'')))
         (str ''A'') (Fin 32) (Fin 16777215) (str ''F''))) = [False]
   \<and> boldCount (snd (parse new_registry None
         (snd (parse new_registry None new_Parser (str ''<b>'') (Fin 32) (Fin 16777215) (str ''F'')))
         (str ''A'') (Fin 32) (Fin 16777215) (str ''F''))) = 1"
proof -
  let ?p1 = "snd (parse new_registry None new_Parser (str ''<b>'') (Fin 32) (Fin 16777215) (str ''F''))"
  from open_bold_loop [of new_Parser 0] have c: "boldCount ?p1 = 1"
    by (simp add: parse_eq)
  have b: "map bold (fst (parse new_registry None ?p1 (str ''A'') (Fin 32) (Fin 16777215) (str ''F''))) = [False]"
    by (simp add: parse_eq applyGradients_fields plain_char_loop)
  have d: "boldCount (snd (parse new_registry None ?p1 (str ''A'') (Fin 32) (Fin 16777215) (str ''F'')))
      = boldCount ?p1"
    by (simp only: parse_eq snd_conv plain_char_loop) (simp add: parse_start_def)
  from c b d show ?thesis by simp
qed

lemma parseFloat_abc_pct: "parseFloat [97, 98, 99, 37] = NaN"
  by (simp add: parseFloat_def take_sign_def startsWith_def str_def is_digit_def Let_def is_space_def)

lemma mul_n_NaN [simp]: "mul_n x NaN = NaN"
  by (cases x) simp_all

lemma size_open_abc_pct:
  "size_open st [97, 98, 99, 37] base p
     = (st\<lparr>fontSize := NaN\<rparr>, p\<lparr>sizeStack := push NaN (sizeStack p)\<rparr>)"
  by (simp add: size_open_def parseUnit_def trim_def is_space_def startsWith_def endsWith_def
      parseFloat_abc_pct Let_def)

lemma no_quotes_abc_pct:
  "startsWith [97, 98, 99, 37] [34] = False" "startsWith [97, 98, 99, 37] [39] = False"
  by (simp_all add: startsWith_def)

lemma invalid_size_pct_loop:
  "map (\<lambda>pc. (char pc, fontSize pc))
     (result (parse_loop new_registry None (str ''A<size=abc%>B'') (Fin 32)
        (parse_start p (Fin 32) (Fin 16777215) (str ''F''))))
   = [([65], Fin 32), ([66], NaN)]"
  unfolding parse_start_def
  by (simp add: exec_simps lookups no_quotes_abc_pct size_open_abc_pct)

lemma invalid_size_loop2:
  "map (\<lambda>pc. (char pc, fontSize pc))
     (result (parse_loop new_registry None (str ''A<size=abc>B'') (Fin 32)
        (parse_start p (Fin 32) (Fin 16777215) (str ''F''))))
   = [([65], Fin 32), ([66], Fin 0)]"
  unfolding parse_start_def
  by (simp add: exec_simps lookups no_quotes_abc size_open_abc)

lemma applyGradients_size:
  "map (\<lambda>pc. (char pc, fontSize pc)) (applyGradients cs) = map (\<lambda>pc. (char pc, fontSize pc)) cs"
proof -
  have "map (\<lambda>pc. (char pc, fontSize pc)) xs = zip (map char xs) (map fontSize xs)"
    for xs :: "ParsedChar list"
    by (induction xs) simp_all
  then show ?thesis by (simp add: applyGradients_fields)
qed

text \<open>
  C6 fails on the code for \<open>size\<close>.  In \<open>A<size=abc>B\<close> the record of \<open>A\<close> has the base
  font size 32 and the record of \<open>B\<close>, emitted right after the tag, has the font size 0;
  in \<open>A<size=abc%>B\<close> it has the font size NaN.
\<close>

theorem invalid_size_not_ignored:
  "map (\<lambda>pc. (char pc, fontSize pc))
     (fst (parse new_registry None new_Parser (str ''A<size=abc>B'')
             (Fin 32) (Fin 16777215) (str ''F'')))
   = [([65], Fin 32), ([66], Fin 0)]
   \<and> map (\<lambda>pc. (char pc, fontSize pc))
     (fst (parse new_registry None new_Parser (str ''A<size=abc%>B'')
             (Fin 32) (Fin 16777215) (str ''F'')))
   = [([65], Fin 32), ([66], NaN)]"
  using invalid_size_loop2 [of new_Parser] invalid_size_pct_loop [of new_Parser]
  by (simp only: parse_eq fst_conv applyGradients_size simp_thms)

lemma pending_nbsp_loop:
  "map (\<lambda>pc. (char pc, extraSpace pc, fixedPosition pc))
     (result (parse_loop new_registry None (str ''<space=10><nbsp>A'') (Fin 32)
        (parse_start p (Fin 32) (Fin 16777215) (str ''F''))))
   = [([160], Fin 0, NaN), ([65], Fin 10, NaN)]"
  unfolding parse_start_def
  by (simp add: exec_simps parseUnit_10 no_quotes_10)

text \<open>
  C8 fails on the code.  In \<open><space=10><pos=5><br>A\<close> the record emitted next after the
  two directives is the line feed of \<open><br>\<close>; it has extra space 0 and no fixed position,
  and the pending values are not cleared: the record of \<open>A\<close> gets them.  In
  \<open><space=10><nbsp>A\<close> the no-break space has extra space 0 and \<open>A\<close> has 10.
\<close>

theorem pending_skips_marks:
  "map (\<lambda>pc. (char pc, extraSpace pc, fixedPosition pc))
     (fst (parse new_registry None new_Parser (str ''<space=10><pos=5><br>A'')
             (Fin 32) (Fin 16777215) (str ''F'')))
   = [([10], Fin 0, NaN), ([65], Fin 10, Fin 5)]
   \<and> map (\<lambda>pc. (char pc, extraSpace pc, fixedPosition pc))
     (fst (parse new_registry None new_Parser (str ''<space=10><nbsp>A'')
             (Fin 32) (Fin 16777215) (str ''F'')))
   = [([160], Fin 0, NaN), ([65], Fin 10, NaN)]"
  using pending_mark_loop [of new_Parser] pending_nbsp_loop [of new_Parser]
  by (simp only: parse_eq fst_conv applyGradients_pending simp_thms)

























end
